theory Spec2Isabelle
  imports
    Main
    "HOL-Library.Char_ord"
    "HOL-Library.List_Lexorder"
    "HOL-Library.Multiset"
    "HOL-Library.Option_ord"
    "HOL-Library.Product_Lexorder"
begin

section \<open>Data model\<close>

text \<open>
  The tables of the inventory application, as \<^verbatim>\<open>routes.py\<close> uses them. The model
  classes themselves (\<^verbatim>\<open>models.py\<close>) are not part of the sources; the fields are the
  ones the route functions read and write. Primary keys are Python integers. A price is
  a Python float: its type is the parameter \<open>'f\<close>, and the conversions between floats
  and text are parameters of the functions that use them.

  A \<open>datetime\<close> is a pair: the ordinal of the calendar day and the time of day in
  microseconds. \<^verbatim>\<open>timedelta(days=n)\<close> moves the first component only, and
  \<^verbatim>\<open>func.date\<close> reads it. The creation timestamp of a row is the time of the request
  that adds it, which the functions take as the argument \<open>now\<close>.
\<close>

type_synonym datetime = "int \<times> nat"

definition plus_days :: "datetime \<Rightarrow> int \<Rightarrow> datetime" where
  "plus_days t n = (fst t + n, snd t)"

definition date_of :: "datetime \<Rightarrow> int" where
  "date_of t = fst t"

record 'f product =
  p_id :: int
  name :: string
  sku :: string
  description :: "string option"
  purchase_price :: 'f
  selling_price :: 'f
  quantity :: int
  reorder_level :: int
  category_id :: "int option"
  supplier_id :: "int option"
  created_at :: datetime

record category =
  c_id :: int
  c_name :: string
  c_description :: "string option"

record supplier =
  s_id :: int
  s_name :: string
  contact_name :: "string option"
  email :: "string option"
  phone :: "string option"
  address :: "string option"

record transaction =
  t_id :: int
  product_id :: int
  t_type :: string
  t_quantity :: int
  t_notes :: "string option"
  user_id :: "int option"
  t_created_at :: datetime

record user =
  u_id :: int
  role :: string

text \<open>
  The committed content of the database. Rows are kept in insertion order; the
  \<open>next_*\<close> fields are the auto-increment counters of the primary keys.
\<close>

record 'f db =
  product_table :: "'f product list"
  category_table :: "category list"
  supplier_table :: "supplier list"
  transaction_table :: "transaction list"
  next_product_id :: int
  next_category_id :: int
  next_supplier_id :: int
  next_transaction_id :: int

datatype http_method = GET | POST

text \<open>
  What a request is answered with. \<open>Success\<close> is the redirect after a commit,
  \<open>Page\<close> a page rendered without any check having failed, \<open>NotFound\<close> the 404 of
  \<^verbatim>\<open>get_or_404\<close>, \<open>ServerError\<close> an exception that no handler catches. The others
  are the flashed error messages:
  \<open>DuplicateSKU\<close> = 'A product with this SKU already exists.',
  \<open>DuplicateName\<close> = 'A category with this name already exists.',
  \<open>InsufficientStock\<close> = 'Cannot sell more than available stock.',
  \<open>InvalidInput\<close> = 'Quantity must be greater than 0.' and the file checks of the import,
  \<open>HasDependents\<close> = 'Cannot delete ... with associated products.',
  \<open>Unauthorized\<close> = 'Admin access required.' and 'Only admins can delete ...'.
\<close>

datatype outcome =
  Success | Page | NotFound | DuplicateSKU | DuplicateName | InsufficientStock
  | InvalidInput | HasDependents | Unauthorized | ServerError

text \<open>\<^verbatim>\<open>Product.query.get_or_404(id)\<close>: the row with that primary key, if any.\<close>

definition get_product :: "'f db \<Rightarrow> int \<Rightarrow> 'f product option" where
  "get_product d i = find (\<lambda>p. p_id p = i) (product_table d)"

text \<open>Writing a changed row back at commit: the row with the same key is replaced.\<close>

definition put_product :: "'f product \<Rightarrow> 'f product list \<Rightarrow> 'f product list" where
  "put_product p' ps = map (\<lambda>p. if p_id p = p_id p' then p' else p) ps"

text \<open>
  Modelled from the spec: \<^verbatim>\<open>User.is_admin()\<close>, a method of the model class that is not
  part of the sources. The spec has the role "admin" grant the privileged operations.
\<close>

definition is_admin :: "user \<Rightarrow> bool" where
  "is_admin u = (role u = ''admin'')"

section \<open>Ledger: \<^verbatim>\<open>update_stock\<close> and \<^verbatim>\<open>add_product\<close>\<close>

text \<open>
  The form of a stock movement. \<open>action\<close> is \<^verbatim>\<open>request.form.get('action')\<close>, which is
  \<open>None\<close> when the field is missing; \<open>sf_quantity\<close> is the field after \<^verbatim>\<open>int(...)\<close>
  (a conversion that fails raises before anything is read or written).
\<close>

record stock_form =
  action :: "string option"
  sf_quantity :: int
  sf_notes :: string

definition update_stock ::
  "user \<Rightarrow> datetime \<Rightarrow> 'f db \<Rightarrow> int \<Rightarrow> http_method \<Rightarrow> stock_form \<Rightarrow> outcome \<times> 'f db" where
  "update_stock cu now d i m f =
    (case get_product d i of
       None \<Rightarrow> (NotFound, d)
     | Some product \<Rightarrow>
         if m = POST then
           if sf_quantity f \<le> 0 then (InvalidInput, d)
           else if action f = Some ''sale'' \<and> sf_quantity f > quantity product
             then (InsufficientStock, d)
           else
             let (product', transaction_type) =
                   (if action f = Some ''purchase''
                    then (product\<lparr>quantity := quantity product + sf_quantity f\<rparr>, ''purchase'')
                    else (product\<lparr>quantity := quantity product - sf_quantity f\<rparr>, ''sale''));
                 tr = \<lparr>t_id = next_transaction_id d,
                       product_id = p_id product,
                       t_type = transaction_type,
                       t_quantity = sf_quantity f,
                       t_notes = Some (sf_notes f),
                       user_id = Some (u_id cu),
                       t_created_at = now\<rparr>
             in (Success,
                 d\<lparr>product_table := put_product product' (product_table d),
                   transaction_table := transaction_table d @ [tr],
                   next_transaction_id := next_transaction_id d + 1\<rparr>)
         else (Page, d))"

text \<open>
  The form of a product, its numeric fields after \<^verbatim>\<open>int(...)\<close> and \<^verbatim>\<open>float(...)\<close>.
\<close>

record 'f product_form =
  pf_name :: string
  pf_sku :: string
  pf_description :: "string option"
  pf_purchase_price :: 'f
  pf_selling_price :: 'f
  pf_quantity :: int
  pf_reorder_level :: int
  pf_category_id :: "int option"
  pf_supplier_id :: "int option"

definition add_product ::
  "user \<Rightarrow> datetime \<Rightarrow> 'f db \<Rightarrow> http_method \<Rightarrow> 'f product_form \<Rightarrow> outcome \<times> 'f db" where
  "add_product cu now d m f =
    (if m = POST then
       (case find (\<lambda>p. sku p = pf_sku f) (product_table d) of
          Some existing \<Rightarrow> (DuplicateSKU, d)
        | None \<Rightarrow>
            let product = \<lparr>p_id = next_product_id d,
                            name = pf_name f,
                            sku = pf_sku f,
                            description = pf_description f,
                            purchase_price = pf_purchase_price f,
                            selling_price = pf_selling_price f,
                            quantity = pf_quantity f,
                            reorder_level = pf_reorder_level f,
                            category_id = pf_category_id f,
                            supplier_id = pf_supplier_id f,
                            created_at = now\<rparr>;
                d1 = d\<lparr>product_table := product_table d @ [product],
                        next_product_id := next_product_id d + 1\<rparr>;
                d2 = (if pf_quantity f > 0
                      then d1\<lparr>transaction_table := transaction_table d1 @
                                 [\<lparr>t_id = next_transaction_id d1,
                                   product_id = p_id product,
                                   t_type = ''purchase'',
                                   t_quantity = pf_quantity f,
                                   t_notes = Some ''Initial stock'',
                                   user_id = Some (u_id cu),
                                   t_created_at = now\<rparr>],
                               next_transaction_id := next_transaction_id d1 + 1\<rparr>
                      else d1)
            in (Success, d2))
     else (Page, d))"

text \<open>
  A sequence of stock movements on one product: the POST requests are served one after
  the other, each on the state the previous one left. The answers are collected.
\<close>

fun record_movements ::
  "user \<Rightarrow> 'f db \<Rightarrow> int \<Rightarrow> (datetime \<times> stock_form) list \<Rightarrow> outcome list \<times> 'f db" where
  "record_movements cu d i [] = ([], d)"
| "record_movements cu d i (nf # rest) =
     (let (r, d') = update_stock cu (fst nf) d i POST (snd nf);
          (rs, d'') = record_movements cu d' i rest
      in (r # rs, d''))"

definition rows_for :: "'f db \<Rightarrow> int \<Rightarrow> transaction list" where
  "rows_for d i = filter (\<lambda>t. product_id t = i) (transaction_table d)"

definition purchased :: "(datetime \<times> stock_form) list \<Rightarrow> int" where
  "purchased ms = sum_list (map (\<lambda>nf. sf_quantity (snd nf))
                     (filter (\<lambda>nf. action (snd nf) = Some ''purchase'') ms))"

definition sold :: "(datetime \<times> stock_form) list \<Rightarrow> int" where
  "sold ms = sum_list (map (\<lambda>nf. sf_quantity (snd nf))
                (filter (\<lambda>nf. action (snd nf) = Some ''sale'') ms))"

definition all_non_negative :: "'f db \<Rightarrow> bool" where
  "all_non_negative d = list_all (\<lambda>p. 0 \<le> quantity p) (product_table d)"

section \<open>Catalog: categories, suppliers, \<^verbatim>\<open>edit_product\<close>\<close>

record category_form =
  cf_name :: string
  cf_description :: "string option"

definition add_category :: "'f db \<Rightarrow> category_form \<Rightarrow> outcome \<times> 'f db" where
  "add_category d f =
    (case find (\<lambda>c. c_name c = cf_name f) (category_table d) of
       Some existing \<Rightarrow> (DuplicateName, d)
     | None \<Rightarrow>
         (Success,
          d\<lparr>category_table := category_table d @
                [\<lparr>c_id = next_category_id d, c_name = cf_name f,
                  c_description = cf_description f\<rparr>],
            next_category_id := next_category_id d + 1\<rparr>))"

definition edit_category :: "'f db \<Rightarrow> int \<Rightarrow> category_form \<Rightarrow> outcome \<times> 'f db" where
  "edit_category d i f =
    (case find (\<lambda>c. c_id c = i) (category_table d) of
       None \<Rightarrow> (NotFound, d)
     | Some category \<Rightarrow>
         if cf_name f \<noteq> c_name category
            \<and> find (\<lambda>c. c_name c = cf_name f) (category_table d) \<noteq> None
         then (DuplicateName, d)
         else
           (Success,
            d\<lparr>category_table :=
                 map (\<lambda>c. if c_id c = i
                           then category\<lparr>c_name := cf_name f, c_description := cf_description f\<rparr>
                           else c)
                   (category_table d)\<rparr>))"

record supplier_form =
  supf_name :: string
  supf_contact_name :: "string option"
  supf_email :: "string option"
  supf_phone :: "string option"
  supf_address :: "string option"

text \<open>
  \<^verbatim>\<open>add_supplier\<close> and \<^verbatim>\<open>edit_supplier\<close> make no query before they commit. Whether the
  commit can fail depends on the declaration of the Supplier table, which is not part of
  the sources: \<open>unique_name\<close> says whether the table has a uniqueness constraint on the
  name. With the constraint, the commit of a second row of the same name raises an
  IntegrityError that nothing catches, and nothing is written.
\<close>

definition add_supplier ::
  "bool \<Rightarrow> 'f db \<Rightarrow> http_method \<Rightarrow> supplier_form \<Rightarrow> outcome \<times> 'f db" where
  "add_supplier unique_name d m f =
    (if m = POST then
       let supplier = \<lparr>s_id = next_supplier_id d,
                        s_name = supf_name f,
                        contact_name = supf_contact_name f,
                        email = supf_email f,
                        phone = supf_phone f,
                        address = supf_address f\<rparr>
       in if unique_name \<and> supf_name f \<in> set (map s_name (supplier_table d))
          then (ServerError, d)
          else (Success,
                d\<lparr>supplier_table := supplier_table d @ [supplier],
                  next_supplier_id := next_supplier_id d + 1\<rparr>)
     else (Page, d))"

definition edit_supplier ::
  "bool \<Rightarrow> 'f db \<Rightarrow> int \<Rightarrow> http_method \<Rightarrow> supplier_form \<Rightarrow> outcome \<times> 'f db" where
  "edit_supplier unique_name d i m f =
    (case find (\<lambda>s. s_id s = i) (supplier_table d) of
       None \<Rightarrow> (NotFound, d)
     | Some supplier \<Rightarrow>
         if m = POST then
           let supplier' = supplier\<lparr>s_name := supf_name f,
                                     contact_name := supf_contact_name f,
                                     email := supf_email f,
                                     phone := supf_phone f,
                                     address := supf_address f\<rparr>
           in if unique_name
                 \<and> supf_name f \<in> set (map s_name (filter (\<lambda>s. s_id s \<noteq> i) (supplier_table d)))
              then (ServerError, d)
              else (Success,
                    d\<lparr>supplier_table :=
                         map (\<lambda>s. if s_id s = i then supplier' else s) (supplier_table d)\<rparr>)
         else (Page, d))"

text \<open>
  \<^verbatim>\<open>edit_product\<close>. The answer has three parts: the outcome, the product object that is
  handed to the form template (\<^verbatim>\<open>render_template(..., product=product, ...)\<close>; none on a
  redirect or a 404), and the committed database. The object is the row loaded into the
  session; assignments to it reach the database only through \<^verbatim>\<open>db.session.commit()\<close>.
  The SKU query runs inside the session, so it sees the name already assigned.
\<close>

definition edit_product ::
  "'f db \<Rightarrow> int \<Rightarrow> http_method \<Rightarrow> 'f product_form
     \<Rightarrow> outcome \<times> 'f product option \<times> 'f db" where
  "edit_product d i m f =
    (case get_product d i of
       None \<Rightarrow> (NotFound, None, d)
     | Some product0 \<Rightarrow>
         if m = POST then
           let product1 = product0\<lparr>name := pf_name f\<rparr>;
               new_sku = pf_sku f
           in if new_sku \<noteq> sku product1
                 \<and> find (\<lambda>p. sku p = new_sku) (put_product product1 (product_table d)) \<noteq> None
              then (DuplicateSKU, Some product1, d)
              else
                let product2 = product1\<lparr>sku := new_sku,
                                         description := pf_description f,
                                         purchase_price := pf_purchase_price f,
                                         selling_price := pf_selling_price f,
                                         reorder_level := pf_reorder_level f,
                                         category_id := pf_category_id f,
                                         supplier_id := pf_supplier_id f\<rparr>
                in (Success, None, d\<lparr>product_table := put_product product2 (product_table d)\<rparr>)
         else (Page, Some product0, d))"

section \<open>Queries: \<^verbatim>\<open>products\<close> and \<^verbatim>\<open>dashboard_stats\<close>\<close>

text \<open>
  \<^verbatim>\<open>ilike\<close>: SQL pattern matching on lower-cased text, \<open>%\<close> for any run of
  characters and \<open>_\<close> for any one character.
\<close>

definition lower_char :: "char \<Rightarrow> char" where
  "lower_char c =
     (if CHR ''A'' \<le> c \<and> c \<le> CHR ''Z'' then char_of (of_char c + (32::nat)) else c)"

fun like :: "string \<Rightarrow> string \<Rightarrow> bool" where
  "like [] s = (s = [])"
| "like (p # ps) [] = (p = CHR ''%'' \<and> like ps [])"
| "like (p # ps) (c # cs) =
     (if p = CHR ''%'' then like ps (c # cs) \<or> like (p # ps) cs
      else (p = CHR ''_'' \<or> p = c) \<and> like ps cs)"

definition ilike :: "string \<Rightarrow> string \<Rightarrow> bool" where
  "ilike s pat = like (map lower_char pat) (map lower_char s)"

text \<open>
  The column attributes of the Product class, by name: the keyword arguments of the
  \<^verbatim>\<open>Product(...)\<close> calls, and \<^verbatim>\<open>id\<close> and \<^verbatim>\<open>created_at\<close>.
\<close>

datatype column =
  Col_id | Col_name | Col_sku | Col_description | Col_purchase_price | Col_selling_price
  | Col_quantity | Col_reorder_level | Col_category_id | Col_supplier_id | Col_created_at

definition Product_column :: "string \<Rightarrow> column option" where
  "Product_column s =
     (if s = ''id'' then Some Col_id
      else if s = ''name'' then Some Col_name
      else if s = ''sku'' then Some Col_sku
      else if s = ''description'' then Some Col_description
      else if s = ''purchase_price'' then Some Col_purchase_price
      else if s = ''selling_price'' then Some Col_selling_price
      else if s = ''quantity'' then Some Col_quantity
      else if s = ''reorder_level'' then Some Col_reorder_level
      else if s = ''category_id'' then Some Col_category_id
      else if s = ''supplier_id'' then Some Col_supplier_id
      else if s = ''created_at'' then Some Col_created_at
      else None)"

text \<open>
  \<^verbatim>\<open>ORDER BY column ASC\<close> and \<^verbatim>\<open>DESC\<close>. Text is compared character by character and a
  missing value sorts before every value. SQL leaves the order of rows with equal keys
  open; here they keep the table's order, in both directions.
\<close>

definition order_by :: "column \<Rightarrow> bool \<Rightarrow> ('f::linorder) product list \<Rightarrow> 'f product list" where
  "order_by col desc ps =
     (let rows = (if desc then rev ps else ps);
          asc = (case col of
                   Col_id \<Rightarrow> sort_key p_id rows
                 | Col_name \<Rightarrow> sort_key name rows
                 | Col_sku \<Rightarrow> sort_key sku rows
                 | Col_description \<Rightarrow> sort_key description rows
                 | Col_purchase_price \<Rightarrow> sort_key purchase_price rows
                 | Col_selling_price \<Rightarrow> sort_key selling_price rows
                 | Col_quantity \<Rightarrow> sort_key quantity rows
                 | Col_reorder_level \<Rightarrow> sort_key reorder_level rows
                 | Col_category_id \<Rightarrow> sort_key category_id rows
                 | Col_supplier_id \<Rightarrow> sort_key supplier_id rows
                 | Col_created_at \<Rightarrow> sort_key created_at rows)
      in if desc then rev asc else asc)"

text \<open>The two filters of the listing: the search text and the category.\<close>

definition filter_products :: "'f db \<Rightarrow> string \<Rightarrow> int option \<Rightarrow> 'f product list" where
  "filter_products d search category =
     (let q1 = (if search \<noteq> []
                then filter (\<lambda>p. ilike (name p) (''%'' @ search @ ''%'')
                                 \<or> ilike (sku p) (''%'' @ search @ ''%''))
                       (product_table d)
                else product_table d)
      in case category of
           None \<Rightarrow> q1
         | Some c \<Rightarrow> if c \<noteq> 0 then filter (\<lambda>p. category_id p = Some c) q1 else q1)"

text \<open>
  \<^verbatim>\<open>products\<close>: the list handed to the template. \<^verbatim>\<open>getattr(Product, sort_by, Product.name)\<close>
  looks the name up among all attributes of the class. \<open>other_attr\<close> tells which names
  are attributes of the class without being columns (relationships, methods, attributes
  of the ORM base class; their declaration is not part of the sources): for them
  \<^verbatim>\<open>getattr\<close> returns an object that is no column, and the answer is \<open>None\<close>, no listing.
\<close>

definition products ::
  "(string \<Rightarrow> bool) \<Rightarrow> ('f::linorder) db \<Rightarrow> string \<Rightarrow> int option \<Rightarrow> string \<Rightarrow> string
     \<Rightarrow> 'f product list option" where
  "products other_attr d search category sort_by order =
     (let query = filter_products d search category
      in case Product_column sort_by of
           Some sort_column \<Rightarrow> Some (order_by sort_column (order = ''desc'') query)
         | None \<Rightarrow>
             if other_attr sort_by then None
             else Some (order_by Col_name (order = ''desc'') query))"

text \<open>
  \<^verbatim>\<open>dashboard_stats\<close>. The grouped query: the rows of one type created at or after
  \<open>start\<close>, grouped by the day of creation, with the sum of the quantities of each day.
  The dictionaries of the source are keyed by the ISO text of the day, which determines
  the day; here they are keyed by the day. The labels (\<^verbatim>\<open>'%b %d'\<close>) are given as days too.
\<close>

definition group_totals :: "string \<Rightarrow> datetime \<Rightarrow> transaction list \<Rightarrow> (int \<times> int) list" where
  "group_totals ty start ts =
     (let rows = filter (\<lambda>t. t_type t = ty \<and> start \<le> t_created_at t) ts
      in map (\<lambda>dy. (dy, sum_list (map t_quantity
                                   (filter (\<lambda>t. date_of (t_created_at t) = dy) rows))))
           (remdups (map (\<lambda>t. date_of (t_created_at t)) rows)))"

definition dashboard_stats :: "datetime \<Rightarrow> 'f db \<Rightarrow> int list \<times> int list \<times> int list" where
  "dashboard_stats now d =
     (let days = 30;
          end_date = now;
          start_date = plus_days end_date (- days);
          purchase_dict = map_of (group_totals ''purchase'' start_date (transaction_table d));
          sale_dict = map_of (group_totals ''sale'' start_date (transaction_table d));
          dates = map (\<lambda>i. plus_days start_date (int i)) [0..<nat days]
      in (map date_of dates,
          map (\<lambda>date. case purchase_dict (date_of date) of Some v \<Rightarrow> v | None \<Rightarrow> 0) dates,
          map (\<lambda>date. case sale_dict (date_of date) of Some v \<Rightarrow> v | None \<Rightarrow> 0) dates))"

section \<open>Import and export: \<^verbatim>\<open>export_products\<close> and \<^verbatim>\<open>import_products\<close>\<close>

text \<open>
  The text functions of Python that the two routes call. Characters are the code points
  below 256; \<open>is_space\<close> is \<^verbatim>\<open>str.isspace\<close> on them, \<open>strip\<close> is \<^verbatim>\<open>str.strip()\<close>.
\<close>

definition is_space :: "char \<Rightarrow> bool" where
  "is_space c = ((of_char c :: nat) \<in> {9, 10, 11, 12, 13, 28, 29, 30, 31, 32, 133, 160})"

definition strip :: "string \<Rightarrow> string" where
  "strip s = rev (dropWhile is_space (rev (dropWhile is_space s)))"

text \<open>\<^verbatim>\<open>str(n)\<close> for an integer: decimal digits, with a minus sign when negative.\<close>

definition digit_char :: "nat \<Rightarrow> char" where
  "digit_char n = char_of (48 + n)"

fun digits :: "nat \<Rightarrow> string" where
  "digits n = (if n < 10 then [digit_char n] else digits (n div 10) @ [digit_char (n mod 10)])"

declare digits.simps [simp del]

definition str_of_int :: "int \<Rightarrow> string" where
  "str_of_int i = (if i < 0 then CHR ''-'' # digits (nat (- i)) else digits (nat i))"

text \<open>
  \<^verbatim>\<open>int(s)\<close> for a string: surrounding whitespace is dropped, one sign is allowed, then
  decimal digits, where single underscores may stand between digits. Anything else is a
  ValueError, here \<open>None\<close>. The whitespace \<^verbatim>\<open>int\<close> drops is tab, line feed, vertical tab,
  form feed, carriage return, space, and of the code points from 128 on the two spaces
  133 and 160; unlike \<^verbatim>\<open>str.strip()\<close> it keeps the separators 28 to 31.
\<close>

definition is_digit :: "char \<Rightarrow> bool" where
  "is_digit c = (CHR ''0'' \<le> c \<and> c \<le> CHR ''9'')"

definition digit_val :: "char \<Rightarrow> nat" where
  "digit_val c = of_char c - 48"

definition is_int_space :: "char \<Rightarrow> bool" where
  "is_int_space c = ((of_char c :: nat) \<in> {9, 10, 11, 12, 13, 32, 133, 160})"

definition int_strip :: "string \<Rightarrow> string" where
  "int_strip s = rev (dropWhile is_int_space (rev (dropWhile is_int_space s)))"

fun parse_digits :: "bool \<Rightarrow> nat \<Rightarrow> string \<Rightarrow> nat option" where
  "parse_digits after_digit acc [] = (if after_digit then Some acc else None)"
| "parse_digits after_digit acc (c # cs) =
     (if is_digit c then parse_digits True (10 * acc + digit_val c) cs
      else if c = CHR ''_'' \<and> after_digit then parse_digits False acc cs
      else None)"

definition int_of_str :: "string \<Rightarrow> int option" where
  "int_of_str s =
     (case int_strip s of
        [] \<Rightarrow> None
      | c # cs \<Rightarrow>
          if c = CHR ''-'' then map_option (\<lambda>n. - int n) (parse_digits False 0 cs)
          else if c = CHR ''+'' then map_option int (parse_digits False 0 cs)
          else map_option int (parse_digits False 0 (c # cs)))"

text \<open>
  The conversions of floats and the formatting of timestamps are library functions whose
  results this development does not compute; the routes take them as a parameter:
  \<^verbatim>\<open>float(s)\<close> (\<open>None\<close> for a ValueError), \<^verbatim>\<open>str(x)\<close> as the CSV writer applies it to a
  float, and \<^verbatim>\<open>strftime('%Y-%m-%d %H:%M:%S')\<close>. \<^verbatim>\<open>float(0)\<close> is the \<open>0\<close> of the type.
\<close>

record 'f pylib =
  float_of_str :: "string \<Rightarrow> 'f option"
  str_of_float :: "'f \<Rightarrow> string"
  strftime :: "datetime \<Rightarrow> string"

text \<open>
  A CSV file is the table of cells that \<^verbatim>\<open>csv.writer\<close> writes and \<^verbatim>\<open>csv.reader\<close> reads
  back: a list of rows, each a list of cells. \<^verbatim>\<open>csv.DictReader\<close> takes the first row as
  the field names, skips empty rows, and turns each other row into a dictionary; a row
  shorter than the header has \<^verbatim>\<open>None\<close> for the missing fields, and of two fields of the
  same name the later one counts.
\<close>

datatype pyval = PyNone | PyStr string

type_synonym csv_dict = "string \<rightharpoonup> pyval"

definition dict_row :: "string list \<Rightarrow> string list \<Rightarrow> csv_dict" where
  "dict_row fieldnames row =
     map_of (rev (zip fieldnames
                    (map PyStr row @ replicate (length fieldnames - length row) PyNone)))"

definition DictReader :: "string list list \<Rightarrow> csv_dict list" where
  "DictReader table =
     (case table of
        [] \<Rightarrow> []
      | fieldnames # rows \<Rightarrow> map (dict_row fieldnames) (filter (\<lambda>r. r \<noteq> []) rows))"

text \<open>
  \<^verbatim>\<open>row.get(K, row.get(k, default))\<close>: the value under the capitalised name, else the one
  under the lower-case name, else (\<open>None\<close> here) the default of the call.
\<close>

definition get2 :: "csv_dict \<Rightarrow> string \<Rightarrow> string \<Rightarrow> pyval option" where
  "get2 row K k = (case row K of Some v \<Rightarrow> Some v | None \<Rightarrow> row k)"

text \<open>
  What is appended to \<^verbatim>\<open>errors\<close>: \<open>SkuExists sku\<close> is the message
  "SKU '...' already exists"; the others are the texts of the exceptions a row can raise:
  \<^verbatim>\<open>.strip()\<close> on \<^verbatim>\<open>None\<close>, \<^verbatim>\<open>float(s)\<close> and \<^verbatim>\<open>int(s)\<close> on a string that is no number.
\<close>

datatype row_error = SkuExists string | NoneHasNoStrip | BadFloat string | BadInt string

definition strip_field :: "pyval option \<Rightarrow> row_error + string" where
  "strip_field v =
     (case v of
        None \<Rightarrow> Inr (strip [])
      | Some PyNone \<Rightarrow> Inl NoneHasNoStrip
      | Some (PyStr s) \<Rightarrow> Inr (strip s))"

text \<open>\<^verbatim>\<open>float(v or 0)\<close> and \<^verbatim>\<open>int(v or default)\<close>, where \<^verbatim>\<open>v\<close> is the result of the lookup.\<close>

definition float_field :: "('f::zero) pylib \<Rightarrow> pyval option \<Rightarrow> row_error + 'f" where
  "float_field lib v =
     (case v of
        None \<Rightarrow> Inr 0
      | Some PyNone \<Rightarrow> Inr 0
      | Some (PyStr s) \<Rightarrow>
          if s = [] then Inr 0
          else (case float_of_str lib s of None \<Rightarrow> Inl (BadFloat s) | Some x \<Rightarrow> Inr x))"

definition int_field :: "pyval option \<Rightarrow> int \<Rightarrow> row_error + int" where
  "int_field v dflt =
     (case v of
        None \<Rightarrow> Inr dflt
      | Some PyNone \<Rightarrow> Inr dflt
      | Some (PyStr s) \<Rightarrow>
          if s = [] then Inr dflt
          else (case int_of_str s of None \<Rightarrow> Inl (BadInt s) | Some n \<Rightarrow> Inr n))"

text \<open>
  The two look-up-or-create blocks of the import loop: the id of the category (supplier)
  of that name, created and flushed when there is none; no id for an empty name.
\<close>

definition upsert_category :: "string \<Rightarrow> 'f db \<Rightarrow> int option \<times> 'f db" where
  "upsert_category category_name d =
     (if category_name \<noteq> [] then
        (case find (\<lambda>c. c_name c = category_name) (category_table d) of
           Some category \<Rightarrow> (Some (c_id category), d)
         | None \<Rightarrow>
             (Some (next_category_id d),
              d\<lparr>category_table := category_table d @
                    [\<lparr>c_id = next_category_id d, c_name = category_name, c_description = None\<rparr>],
                next_category_id := next_category_id d + 1\<rparr>))
      else (None, d))"

definition upsert_supplier :: "string \<Rightarrow> 'f db \<Rightarrow> int option \<times> 'f db" where
  "upsert_supplier supplier_name d =
     (if supplier_name \<noteq> [] then
        (case find (\<lambda>s. s_name s = supplier_name) (supplier_table d) of
           Some supplier \<Rightarrow> (Some (s_id supplier), d)
         | None \<Rightarrow>
             (Some (next_supplier_id d),
              d\<lparr>supplier_table := supplier_table d @
                    [\<lparr>s_id = next_supplier_id d, s_name = supplier_name, contact_name = None,
                      email = None, phone = None, address = None\<rparr>],
                next_supplier_id := next_supplier_id d + 1\<rparr>))
      else (None, d))"

text \<open>
  The state of the import loop: the session (the database with what the loop has added
  so far; the SKU query of a row sees the products of earlier rows) and the three
  accumulators.
\<close>

record 'f import_state =
  session :: "'f db"
  imported :: nat
  skipped :: nat
  errors :: "row_error list"

text \<open>The \<^verbatim>\<open>except Exception\<close> clause of a row: what the row added to the session stays.\<close>

definition row_failed :: "'f import_state \<Rightarrow> 'f db \<Rightarrow> row_error \<Rightarrow> 'f import_state" where
  "row_failed st d e = st\<lparr>session := d, skipped := skipped st + 1, errors := errors st @ [e]\<rparr>"

text \<open>One iteration of \<^verbatim>\<open>for row in reader\<close>.\<close>

definition import_row ::
  "('f::zero) pylib \<Rightarrow> datetime \<Rightarrow> 'f import_state \<Rightarrow> csv_dict \<Rightarrow> 'f import_state" where
  "import_row lib now st row =
    (case strip_field (get2 row ''SKU'' ''sku'') of
       Inl e \<Rightarrow> row_failed st (session st) e
     | Inr sku' \<Rightarrow>
       if sku' = [] then st\<lparr>skipped := skipped st + 1\<rparr>
       else if find (\<lambda>p. sku p = sku') (product_table (session st)) \<noteq> None
         then st\<lparr>skipped := skipped st + 1, errors := errors st @ [SkuExists sku']\<rparr>
       else
        (case strip_field (get2 row ''Name'' ''name'') of
           Inl e \<Rightarrow> row_failed st (session st) e
         | Inr name' \<Rightarrow>
           if name' = [] then st\<lparr>skipped := skipped st + 1\<rparr>
           else
            (case strip_field (get2 row ''Category'' ''category'') of
               Inl e \<Rightarrow> row_failed st (session st) e
             | Inr category_name \<Rightarrow>
               let (category, d1) = upsert_category category_name (session st)
               in
                (case strip_field (get2 row ''Supplier'' ''supplier'') of
                   Inl e \<Rightarrow> row_failed st d1 e
                 | Inr supplier_name \<Rightarrow>
                   let (supplier, d2) = upsert_supplier supplier_name d1
                   in
                    (case float_field lib (get2 row ''Purchase Price'' ''purchase_price'') of
                       Inl e \<Rightarrow> row_failed st d2 e
                     | Inr purchase_price' \<Rightarrow>
                    (case float_field lib (get2 row ''Selling Price'' ''selling_price'') of
                       Inl e \<Rightarrow> row_failed st d2 e
                     | Inr selling_price' \<Rightarrow>
                    (case int_field (get2 row ''Quantity'' ''quantity'') 0 of
                       Inl e \<Rightarrow> row_failed st d2 e
                     | Inr quantity' \<Rightarrow>
                    (case int_field (get2 row ''Reorder Level'' ''reorder_level'') 10 of
                       Inl e \<Rightarrow> row_failed st d2 e
                     | Inr reorder_level' \<Rightarrow>
                       let product =
                             \<lparr>p_id = next_product_id d2,
                              name = name',
                              sku = sku',
                              description =
                                (case get2 row ''Description'' ''description'' of
                                   None \<Rightarrow> Some []
                                 | Some PyNone \<Rightarrow> None
                                 | Some (PyStr s) \<Rightarrow> Some s),
                              purchase_price = purchase_price',
                              selling_price = selling_price',
                              quantity = quantity',
                              reorder_level = reorder_level',
                              category_id = category,
                              supplier_id = supplier,
                              created_at = now\<rparr>
                       in st\<lparr>session := d2\<lparr>product_table := product_table d2 @ [product],
                                            next_product_id := next_product_id d2 + 1\<rparr>,
                             imported := imported st + 1\<rparr>))))))))"

text \<open>
  The uploaded file: its name and the table \<^verbatim>\<open>csv.reader\<close> makes of its content (a
  content that cannot be decoded or parsed raises in the outer \<^verbatim>\<open>try\<close>, and the batch is
  rolled back). \<open>None\<close> is a request without the \<^verbatim>\<open>file\<close> part.
\<close>

record upload =
  filename :: string
  content :: "string list list"

definition endswith :: "string \<Rightarrow> string \<Rightarrow> bool" where
  "endswith s suffix = (length suffix \<le> length s \<and> drop (length s - length suffix) s = suffix)"

text \<open>
  \<^verbatim>\<open>import_products\<close>: the outcome, and the accumulators with the committed database in
  the \<open>session\<close> field.
\<close>

definition import_products ::
  "('f::zero) pylib \<Rightarrow> user \<Rightarrow> datetime \<Rightarrow> 'f db \<Rightarrow> http_method \<Rightarrow> upload option
     \<Rightarrow> outcome \<times> 'f import_state" where
  "import_products lib cu now d m file =
    (let start = \<lparr>session = d, imported = 0, skipped = 0, errors = []\<rparr>
     in if \<not> is_admin cu then (Unauthorized, start)
        else if m = POST then
          (case file of
             None \<Rightarrow> (InvalidInput, start)
           | Some f \<Rightarrow>
               if filename f = [] then (InvalidInput, start)
               else if \<not> endswith (filename f) ''.csv'' then (InvalidInput, start)
               else (Success, foldl (import_row lib now) start (DictReader (content f))))
        else (Page, start))"

text \<open>\<^verbatim>\<open>export_products\<close>: the header row, then one row per product, ordered by name.\<close>

definition export_header :: "string list" where
  "export_header = [''ID'', ''Name'', ''SKU'', ''Description'', ''Category'', ''Supplier'',
                    ''Purchase Price'', ''Selling Price'', ''Quantity'', ''Reorder Level'',
                    ''Created At'']"

definition export_row :: "'f pylib \<Rightarrow> 'f db \<Rightarrow> 'f product \<Rightarrow> string list" where
  "export_row lib d p =
     [str_of_int (p_id p),
      name p,
      sku p,
      (case description p of None \<Rightarrow> [] | Some s \<Rightarrow> s),
      (case category_id p of
         None \<Rightarrow> []
       | Some i \<Rightarrow> (case find (\<lambda>c. c_id c = i) (category_table d) of
                      None \<Rightarrow> [] | Some c \<Rightarrow> c_name c)),
      (case supplier_id p of
         None \<Rightarrow> []
       | Some i \<Rightarrow> (case find (\<lambda>s. s_id s = i) (supplier_table d) of
                      None \<Rightarrow> [] | Some s \<Rightarrow> s_name s)),
      str_of_float lib (purchase_price p),
      str_of_float lib (selling_price p),
      str_of_int (quantity p),
      str_of_int (reorder_level p),
      strftime lib (created_at p)]"

definition export_products :: "'f pylib \<Rightarrow> 'f db \<Rightarrow> string list list" where
  "export_products lib d =
     export_header # map (export_row lib d) (sort_key name (product_table d))"

text \<open>What the round trip is about: the SKU of a product with its quantity and prices.\<close>

definition essentials :: "'f product \<Rightarrow> string \<times> int \<times> 'f \<times> 'f" where
  "essentials p = (sku p, quantity p, purchase_price p, selling_price p)"

text \<open>
  The result of importing the row (SKU "X1", Name "Widget", Category "Tools") under the
  header SKU, Name, Category into a database \<open>d\<close>: the id of the category "Tools" (the
  existing one, else the next free id), the category table with "Tools" in it, and the
  product row that is added.
\<close>

definition tools_category :: "'f db \<Rightarrow> int" where
  "tools_category d =
     (case find (\<lambda>c. c_name c = ''Tools'') (category_table d) of
        Some c \<Rightarrow> c_id c | None \<Rightarrow> next_category_id d)"

definition with_tools :: "'f db \<Rightarrow> category list" where
  "with_tools d =
     (if ''Tools'' \<in> set (map c_name (category_table d)) then category_table d
      else category_table d @
             [\<lparr>c_id = next_category_id d, c_name = ''Tools'', c_description = None\<rparr>])"

definition new_widget :: "('f::zero) db \<Rightarrow> datetime \<Rightarrow> 'f product" where
  "new_widget d now =
     \<lparr>p_id = next_product_id d, name = ''Widget'', sku = ''X1'', description = Some [],
      purchase_price = 0, selling_price = 0, quantity = 0, reorder_level = 10,
      category_id = Some (tools_category d), supplier_id = None, created_at = now\<rparr>"

section \<open>Example states\<close>

definition demo_user :: user where
  "demo_user = \<lparr>u_id = 1, role = ''staff''\<rparr>"

definition empty_db :: "int db" where
  "empty_db = \<lparr>product_table = [], category_table = [], supplier_table = [],
               transaction_table = [], next_product_id = 1, next_category_id = 1,
               next_supplier_id = 1, next_transaction_id = 1\<rparr>"

definition widget_form :: "int product_form" where
  "widget_form = \<lparr>pf_name = ''Widget'', pf_sku = ''W1'', pf_description = None,
                  pf_purchase_price = 2, pf_selling_price = 3, pf_quantity = 5,
                  pf_reorder_level = 10, pf_category_id = None, pf_supplier_id = None\<rparr>"

definition stocked_db :: "int db" where
  "stocked_db = snd (add_product demo_user (100, 0) empty_db POST widget_form)"

definition one_purchase :: "(datetime \<times> stock_form) list" where
  "one_purchase = [((100, 1), \<lparr>action = Some ''purchase'', sf_quantity = 3, sf_notes = ''''\<rparr>)]"

definition two_moves :: "(datetime \<times> stock_form) list" where
  "two_moves = [((100, 1), \<lparr>action = Some ''purchase'', sf_quantity = 3, sf_notes = ''''\<rparr>),
                ((101, 0), \<lparr>action = Some ''sale'', sf_quantity = 2, sf_notes = ''sold''\<rparr>)]"

definition widget :: "int product" where
  "widget = \<lparr>p_id = 1, name = ''Widget'', sku = ''W1'', description = None,
             purchase_price = 2, selling_price = 3, quantity = 5, reorder_level = 10,
             category_id = None, supplier_id = None, created_at = (100, 0)\<rparr>"

definition gadget_form :: "int product_form" where
  "gadget_form = \<lparr>pf_name = ''Gadget'', pf_sku = ''G1'', pf_description = Some ''a gadget'',
                  pf_purchase_price = 7, pf_selling_price = 9, pf_quantity = 0,
                  pf_reorder_level = 4, pf_category_id = None, pf_supplier_id = None\<rparr>"

definition two_product_db :: "int db" where
  "two_product_db = snd (add_product demo_user (100, 5) stocked_db POST gadget_form)"

definition gadget :: "int product" where
  "gadget = \<lparr>p_id = 2, name = ''Gadget'', sku = ''G1'', description = Some ''a gadget'',
             purchase_price = 7, selling_price = 9, quantity = 0, reorder_level = 4,
             category_id = None, supplier_id = None, created_at = (100, 5)\<rparr>"

definition rename_form :: "int product_form" where
  "rename_form = widget_form\<lparr>pf_name := ''Renamed'', pf_sku := ''G1''\<rparr>"

definition acme_form :: supplier_form where
  "acme_form = \<lparr>supf_name = ''Acme'', supf_contact_name = None, supf_email = None,
                supf_phone = None, supf_address = None\<rparr>"

definition acme_db :: "int db" where
  "acme_db = snd (add_supplier False empty_db POST acme_form)"

definition no_other_attr :: "string \<Rightarrow> bool" where
  "no_other_attr s = False"

definition purchase_of_5 :: "datetime \<Rightarrow> transaction" where
  "purchase_of_5 t = \<lparr>t_id = 1, product_id = 1, t_type = ''purchase'', t_quantity = 5,
                      t_notes = Some ''restock'', user_id = Some 1, t_created_at = t\<rparr>"

text \<open>
  Example values for import and export. In the examples a price is a whole number, written
  and read in decimal.
\<close>

definition int_lib :: "int pylib" where
  "int_lib = \<lparr>float_of_str = int_of_str, str_of_float = str_of_int,
              strftime = (\<lambda>t. str_of_int (fst t))\<rparr>"

definition admin_user :: user where
  "admin_user = \<lparr>u_id = 2, role = ''admin''\<rparr>"

definition spaced_db :: "int db" where
  "spaced_db = snd (add_product demo_user (100, 0) empty_db POST (widget_form\<lparr>pf_sku := ''W1 ''\<rparr>))"

definition export_of :: "int db \<Rightarrow> upload" where
  "export_of d = \<lparr>filename = ''products_export.csv'', content = export_products int_lib d\<rparr>"

definition tools_file :: upload where
  "tools_file = \<lparr>filename = ''new.csv'',
                  content = [[''SKU'', ''Name'', ''Category''],
                             [''X1'', ''Widget'', ''Tools''],
                             [''W1'', ''Widget again'', ''Tools'']]\<rparr>"

definition start_state :: "int import_state" where
  "start_state = \<lparr>session = stocked_db, imported = 0, skipped = 0, errors = []\<rparr>"

definition blank_sku_row :: csv_dict where
  "blank_sku_row = dict_row [''SKU'', ''Name''] [''  '', ''Thing'']"

definition blank_name_row :: csv_dict where
  "blank_name_row = dict_row [''SKU'', ''Name''] [''Z9'', '' '']"

definition blank_name_known_sku_row :: csv_dict where
  "blank_name_known_sku_row = dict_row [''SKU'', ''Name''] [''W1'', '' '']"

section \<open>Properties of the ledger\<close>

lemmas demo_defs = stocked_db_def one_purchase_def two_moves_def add_product_def empty_db_def
  widget_form_def widget_def demo_user_def update_stock_def get_product_def put_product_def
  rows_for_def Let_def

lemma find_put_product:
  "find (\<lambda>p. p_id p = i) ps = Some p \<Longrightarrow> p_id p' = i \<Longrightarrow>
   find (\<lambda>p. p_id p = i) (put_product p' ps) = Some p'"
  by (induction ps) (auto simp: put_product_def split: if_splits)

lemma get_product_id: "get_product d i = Some p \<Longrightarrow> p_id p = i"
  unfolding get_product_def by (induction "product_table d") (auto simp: find_Some_iff)

lemma update_stock_step:
  assumes "get_product d i = Some p" and "update_stock cu now d i POST f = (Success, d')"
  shows "get_product d' i =
           Some (p\<lparr>quantity := (if action f = Some ''purchase'' then quantity p + sf_quantity f
                                 else quantity p - sf_quantity f)\<rparr>)
         \<and> (\<exists>tr. product_id tr = i \<and> transaction_table d' = transaction_table d @ [tr]
               \<and> t_quantity tr = sf_quantity f
               \<and> t_type tr = (if action f = Some ''purchase'' then ''purchase'' else ''sale''))"
  using assms get_product_id[OF assms(1)]
  by (auto simp: update_stock_def get_product_def find_put_product split: if_splits)

lemma update_stock_succeeds_iff:
  "fst (update_stock cu now d i POST f) = Success \<longleftrightarrow>
     (\<exists>p. get_product d i = Some p \<and> 0 < sf_quantity f
          \<and> (action f = Some ''sale'' \<longrightarrow> sf_quantity f \<le> quantity p))"
  by (auto simp: update_stock_def split: option.splits prod.splits)

text \<open>
  Claim C1 (as amended). For every product and every sequence of N stock movements on it
  that all succeed, with actions among purchase and sale, the final quantity is the
  initial quantity plus the purchased quantities minus the sold quantities, and the
  Transaction rows of the product are the rows it had before followed by exactly N new
  rows, one per call and in the order of the calls, carrying the quantity and the type of
  the call: the count grows by N, no earlier row is edited or removed.
\<close>

theorem movements_ledger:
  assumes "get_product d i = Some p"
    and "record_movements cu d i ms = (rs, d')"
    and "\<forall>r\<in>set rs. r = Success"
    and "\<forall>nf\<in>set ms. action (snd nf) = Some ''purchase'' \<or> action (snd nf) = Some ''sale''"
  shows "\<exists>p' new. get_product d' i = Some p'
           \<and> quantity p' = quantity p + purchased ms - sold ms
           \<and> rows_for d' i = rows_for d i @ new
           \<and> length new = length ms
           \<and> map t_quantity new = map (\<lambda>nf. sf_quantity (snd nf)) ms
           \<and> map (\<lambda>t. Some (t_type t)) new = map (\<lambda>nf. action (snd nf)) ms"
  using assms
proof (induction ms arbitrary: d p rs)
  case Nil
  then show ?case by (simp add: purchased_def sold_def)
next
  case (Cons nf ms)
  obtain r d1 where u: "update_stock cu (fst nf) d i POST (snd nf) = (r, d1)"
    by (cases "update_stock cu (fst nf) d i POST (snd nf)")
  obtain rs1 where rec: "record_movements cu d1 i ms = (rs1, d')" and rs: "rs = r # rs1"
    using Cons.prems(2) u by (auto split: prod.splits)
  have r: "r = Success" using Cons.prems(3) rs by simp
  let ?f = "snd nf"
  let ?p1 = "p\<lparr>quantity := (if action ?f = Some ''purchase'' then quantity p + sf_quantity ?f
                                 else quantity p - sf_quantity ?f)\<rparr>"
  from update_stock_step[OF Cons.prems(1) u[unfolded r]]
  obtain tr where g1: "get_product d1 i = Some ?p1"
    and tr: "product_id tr = i" "transaction_table d1 = transaction_table d @ [tr]"
      "t_quantity tr = sf_quantity ?f"
      "t_type tr = (if action ?f = Some ''purchase'' then ''purchase'' else ''sale'')"
    by blast
  have all1: "\<forall>r\<in>set rs1. r = Success" using Cons.prems(3) rs by simp
  have acts: "\<forall>nf\<in>set ms. action (snd nf) = Some ''purchase'' \<or> action (snd nf) = Some ''sale''"
    using Cons.prems(4) by simp
  from Cons.IH[OF g1 rec all1 acts]
  obtain p' new where ih: "get_product d' i = Some p'"
      "quantity p' = quantity ?p1 + purchased ms - sold ms"
      "rows_for d' i = rows_for d1 i @ new" "length new = length ms"
      "map t_quantity new = map (\<lambda>nf. sf_quantity (snd nf)) ms"
      "map (\<lambda>t. Some (t_type t)) new = map (\<lambda>nf. action (snd nf)) ms"
    by blast
  have act: "action ?f = Some ''purchase'' \<or> action ?f = Some ''sale''"
    using Cons.prems(4) by simp
  have q: "quantity p' = quantity p + purchased (nf # ms) - sold (nf # ms)"
    using ih(2) act by (auto simp: purchased_def sold_def)
  have rows: "rows_for d' i = rows_for d i @ (tr # new)"
    using ih(3) tr by (simp add: rows_for_def)
  have ty: "Some (t_type tr) = action ?f" using tr(4) act by auto
  show ?case
    using ih(1) q rows ih(4) ih(5) ih(6) tr(3) ty
    by (intro exI[of _ p'] exI[of _ "tr # new"]) simp
qed

text \<open>The ledger theorem at a purchase of 3 followed by a sale of 2 on a stock of 5.\<close>

theorem movements_ledger_witness:
  "get_product stocked_db 1 = Some widget
   \<and> fst (record_movements demo_user stocked_db 1 two_moves) = [Success, Success]
   \<and> map (\<lambda>nf. action (snd nf)) two_moves = [Some ''purchase'', Some ''sale'']
   \<and> (\<exists>p' new. get_product (snd (record_movements demo_user stocked_db 1 two_moves)) 1 = Some p'
         \<and> quantity p' = 6
         \<and> rows_for (snd (record_movements demo_user stocked_db 1 two_moves)) 1
             = rows_for stocked_db 1 @ new
         \<and> length new = 2)"
proof -
  obtain rs d' where run: "record_movements demo_user stocked_db 1 two_moves = (rs, d')"
    by (cases "record_movements demo_user stocked_db 1 two_moves")
  have h1: "get_product stocked_db 1 = Some widget" by (simp add: demo_defs)
  have h2: "fst (record_movements demo_user stocked_db 1 two_moves) = [Success, Success]"
    by (simp add: demo_defs)
  with run have h3: "\<forall>r\<in>set rs. r = Success" by simp
  have acts: "map (\<lambda>nf. action (snd nf)) two_moves = [Some ''purchase'', Some ''sale'']"
    by (simp add: two_moves_def)
  have h4: "\<forall>nf\<in>set two_moves. action (snd nf) = Some ''purchase'' \<or> action (snd nf) = Some ''sale''"
    by (simp add: two_moves_def)
  have q: "quantity widget + purchased two_moves - sold two_moves = 6"
    by (simp add: widget_def purchased_def sold_def two_moves_def)
  have n: "length two_moves = 2" by (simp add: two_moves_def)
  from movements_ledger[OF h1 run h3 h4] q n run h1 h2 acts show ?thesis
    by auto
qed

text \<open>
  Claim C1 as stated has the row count equal to N. A product created with an initial
  quantity of 5 already has its "Initial stock" row; after one successful purchase it has
  two rows, not one.
\<close>

theorem movements_row_count_counterexample:
  "fst (record_movements demo_user stocked_db 1 one_purchase) = [Success]
   \<and> length (rows_for (snd (record_movements demo_user stocked_db 1 one_purchase)) 1) = 2
   \<and> length one_purchase = 1"
  by (simp add: stocked_db_def one_purchase_def add_product_def empty_db_def widget_form_def
      demo_user_def update_stock_def get_product_def put_product_def rows_for_def Let_def)

text \<open>
  Claim C2. A sale movement (a positive quantity, as every stock movement has) whose
  quantity is strictly greater than the product's current quantity is answered with
  InsufficientStock, and the state after the call is the state before it: no quantity and
  no Transaction row changes.
\<close>

theorem sale_beyond_stock_rejected:
  assumes "get_product d i = Some p" and "action f = Some ''sale''"
    and "0 < sf_quantity f" and "quantity p < sf_quantity f"
  shows "update_stock cu now d i POST f = (InsufficientStock, d)"
  using assms by (simp add: update_stock_def)

text \<open>A sale of 6 on a stock of 5.\<close>

theorem sale_beyond_stock_rejected_witness:
  "get_product stocked_db 1 = Some widget \<and> (0::int) < 6 \<and> quantity widget < 6
   \<and> update_stock demo_user (101, 0) stocked_db 1 POST
        \<lparr>action = Some ''sale'', sf_quantity = 6, sf_notes = ''''\<rparr> = (InsufficientStock, stocked_db)"
proof -
  have h1: "get_product stocked_db 1 = Some widget" by (simp add: demo_defs)
  have h4: "quantity widget < 6" by (simp add: widget_def)
  from sale_beyond_stock_rejected[OF h1, of "\<lparr>action = Some ''sale'', sf_quantity = 6, sf_notes = ''''\<rparr>"
      demo_user "(101, 0)"] h1 h4
  show ?thesis by simp
qed

lemma put_product_non_negative:
  "list_all (\<lambda>p. 0 \<le> quantity p) ps \<Longrightarrow> 0 \<le> quantity p' \<Longrightarrow>
   list_all (\<lambda>p. 0 \<le> quantity p) (put_product p' ps)"
  by (induction ps) (auto simp: put_product_def)

lemma get_product_non_negative:
  "all_non_negative d \<Longrightarrow> get_product d i = Some p \<Longrightarrow> 0 \<le> quantity p"
  by (auto simp: all_non_negative_def get_product_def find_Some_iff list_all_length)

text \<open>
  Claim C3 (as amended). In a state where every product's quantity is non-negative,
  creating a product with a non-negative initial quantity, and any stock movement whose
  action is purchase or sale, lead to a state where every product's quantity is
  non-negative.
\<close>

theorem quantity_non_negative_preserved:
  assumes "all_non_negative d"
  shows "(0 \<le> pf_quantity pf \<longrightarrow> all_non_negative (snd (add_product cu now d m pf)))
       \<and> (action f = Some ''purchase'' \<or> action f = Some ''sale''
            \<longrightarrow> all_non_negative (snd (update_stock cu now d i m f)))"
proof (intro conjI impI)
  assume "0 \<le> pf_quantity pf"
  with assms show "all_non_negative (snd (add_product cu now d m pf))"
    by (auto simp: add_product_def all_non_negative_def Let_def split: option.splits)
next
  assume act: "action f = Some ''purchase'' \<or> action f = Some ''sale''"
  show "all_non_negative (snd (update_stock cu now d i m f))"
  proof (cases "get_product d i")
    case None
    with assms show ?thesis by (simp add: update_stock_def)
  next
    case (Some p)
    from get_product_non_negative[OF assms Some] have "0 \<le> quantity p" .
    with assms Some act show ?thesis
      by (auto simp: update_stock_def all_non_negative_def intro!: put_product_non_negative)
  qed
qed

text \<open>Creating a second product and selling the whole stock of the first.\<close>

theorem quantity_non_negative_preserved_witness:
  "all_non_negative stocked_db
   \<and> (0::int) \<le> pf_quantity (widget_form\<lparr>pf_sku := ''W2''\<rparr>)
   \<and> all_non_negative (snd (add_product demo_user (101, 0) stocked_db POST (widget_form\<lparr>pf_sku := ''W2''\<rparr>)))
   \<and> all_non_negative (snd (update_stock demo_user (101, 0) stocked_db 1 POST
        \<lparr>action = Some ''sale'', sf_quantity = 5, sf_notes = ''''\<rparr>))"
proof -
  have h: "all_non_negative stocked_db" by (simp add: demo_defs all_non_negative_def)
  have q: "(0::int) \<le> pf_quantity (widget_form\<lparr>pf_sku := ''W2''\<rparr>)" by (simp add: widget_form_def)
  from quantity_non_negative_preserved[OF h, of "widget_form\<lparr>pf_sku := ''W2''\<rparr>" demo_user "(101, 0)" POST
      "\<lparr>action = Some ''sale'', sf_quantity = 5, sf_notes = ''''\<rparr>" 1] h q
  show ?thesis by simp
qed

text \<open>
  Claim C3 as stated covers every product creation and every action value. The initial
  quantity is stored as submitted: creating a product with quantity -5 succeeds and leaves
  a negative quantity. A movement with the action 'adjust' and quantity 8 on a stock of 5
  succeeds and leaves -3.
\<close>

theorem negative_quantity_counterexample:
  "all_non_negative empty_db
   \<and> fst (add_product demo_user (100, 0) empty_db POST (widget_form\<lparr>pf_quantity := - 5\<rparr>)) = Success
   \<and> \<not> all_non_negative (snd (add_product demo_user (100, 0) empty_db POST (widget_form\<lparr>pf_quantity := - 5\<rparr>)))
   \<and> all_non_negative stocked_db
   \<and> fst (update_stock demo_user (101, 0) stocked_db 1 POST
        \<lparr>action = Some ''adjust'', sf_quantity = 8, sf_notes = ''''\<rparr>) = Success
   \<and> \<not> all_non_negative (snd (update_stock demo_user (101, 0) stocked_db 1 POST
        \<lparr>action = Some ''adjust'', sf_quantity = 8, sf_notes = ''''\<rparr>))"
  by (simp add: demo_defs all_non_negative_def)

text \<open>
  Claim C10. A stock movement with a positive quantity whose action is anything but
  'purchase' (a missing action included) is treated as a sale: the quantity is decremented
  by the requested amount and a Transaction of type 'sale' is appended. The sufficiency
  check applies only when the action is exactly 'sale'; with any other action a quantity
  above the current stock still decrements, and the product's quantity becomes negative.
\<close>

theorem other_action_is_sale:
  assumes "get_product d i = Some p" and "action f \<noteq> Some ''purchase''" and "0 < sf_quantity f"
  shows "if action f = Some ''sale'' \<and> quantity p < sf_quantity f
         then update_stock cu now d i POST f = (InsufficientStock, d)
         else (\<exists>d' tr. update_stock cu now d i POST f = (Success, d')
                 \<and> get_product d' i = Some (p\<lparr>quantity := quantity p - sf_quantity f\<rparr>)
                 \<and> transaction_table d' = transaction_table d @ [tr]
                 \<and> product_id tr = i \<and> t_type tr = ''sale'' \<and> t_quantity tr = sf_quantity f
                 \<and> (quantity p < sf_quantity f \<longrightarrow>
                       quantity (p\<lparr>quantity := quantity p - sf_quantity f\<rparr>) < 0))"
proof (cases "action f = Some ''sale'' \<and> quantity p < sf_quantity f")
  case True
  with assms show ?thesis by (simp add: update_stock_def)
next
  case False
  obtain d' where u: "update_stock cu now d i POST f = (Success, d')"
    using assms False update_stock_succeeds_iff[of cu now d i f]
    by (cases "update_stock cu now d i POST f") auto
  from update_stock_step[OF assms(1) u] assms(2) False u show ?thesis by auto
qed

text \<open>Action 'adjust' with quantity 8 on a stock of 5 leaves -3 and a 'sale' row.\<close>

theorem other_action_is_sale_witness:
  "get_product stocked_db 1 = Some widget
   \<and> quantity (the (get_product (snd (update_stock demo_user (101, 0) stocked_db 1 POST
        \<lparr>action = Some ''adjust'', sf_quantity = 8, sf_notes = ''''\<rparr>)) 1)) = - 3
   \<and> map t_type (transaction_table (snd (update_stock demo_user (101, 0) stocked_db 1 POST
        \<lparr>action = Some ''adjust'', sf_quantity = 8, sf_notes = ''''\<rparr>))) = [''purchase'', ''sale'']"
proof -
  have h1: "get_product stocked_db 1 = Some widget" by (simp add: demo_defs)
  have tt: "map t_type (transaction_table stocked_db) = [''purchase'']" by (simp add: demo_defs)
  from other_action_is_sale[OF h1, of "\<lparr>action = Some ''adjust'', sf_quantity = 8, sf_notes = ''''\<rparr>"
      demo_user "(101, 0)"] h1 tt
  show ?thesis by (auto simp: widget_def)
qed

lemma two_product_table: "product_table two_product_db = [widget, gadget]"
  by (simp add: two_product_db_def gadget_form_def gadget_def demo_defs)

section \<open>Properties of the catalog\<close>

lemma edit_product_duplicate_sku_db:
  "fst (edit_product d i m f) = DuplicateSKU \<Longrightarrow> snd (snd (edit_product d i m f)) = d"
  by (auto simp: edit_product_def Let_def split: option.splits if_splits)

lemma edit_product_duplicate_sku_shown:
  "fst (edit_product d i m f) = DuplicateSKU \<Longrightarrow> get_product d i = Some p \<Longrightarrow>
   fst (snd (edit_product d i m f)) = Some (p\<lparr>name := pf_name f\<rparr>)"
  by (auto simp: edit_product_def Let_def split: option.splits if_splits)

text \<open>
  Claim C6. An edit that changes the SKU to that of another product is answered with
  DuplicateSKU, and the claim has every field of the product as before. The committed row
  is as before, but the name is assigned before the SKU is checked: the product handed
  back with the error carries the submitted name, its other fields unchanged. Here the
  product 'Widget' comes back named 'Renamed'.
\<close>

theorem edit_product_duplicate_sku_renames:
  "get_product two_product_db 1 = Some widget
   \<and> edit_product two_product_db 1 POST rename_form
       = (DuplicateSKU, Some (widget\<lparr>name := ''Renamed''\<rparr>), two_product_db)
   \<and> name (widget\<lparr>name := ''Renamed''\<rparr>) \<noteq> name widget"
  by (simp add: edit_product_def get_product_def two_product_table put_product_def rename_form_def
       widget_form_def widget_def gadget_def)

text \<open>
  Claim C5. A supplier whose name exists is claimed to be rejected with DuplicateName.
  \<^verbatim>\<open>add_supplier\<close> has no such check: without a uniqueness constraint on the table a
  second supplier 'Acme' is stored and the call succeeds; with the constraint the commit
  fails with a server error. Neither is DuplicateName.
\<close>

theorem add_supplier_duplicate_name:
  "map s_name (supplier_table acme_db) = [''Acme'']
   \<and> fst (add_supplier False acme_db POST acme_form) = Success
   \<and> map s_name (supplier_table (snd (add_supplier False acme_db POST acme_form))) = [''Acme'', ''Acme'']
   \<and> add_supplier True acme_db POST acme_form = (ServerError, acme_db)"
  by (simp add: acme_db_def add_supplier_def acme_form_def empty_db_def)

lemma add_supplier_never_duplicate_name:
  "fst (add_supplier u d m f) \<noteq> DuplicateName"
  by (simp add: add_supplier_def Let_def)

lemma add_category_rejects_duplicate:
  "cf_name f \<in> set (map c_name (category_table d)) \<Longrightarrow> add_category d f = (DuplicateName, d)"
  by (auto simp: add_category_def find_None_iff split: option.splits)

lemma add_category_keeps_distinct:
  "distinct (map c_name (category_table d)) \<Longrightarrow>
   distinct (map c_name (category_table (snd (add_category d f))))"
  by (auto simp: add_category_def find_None_iff split: option.splits)

section \<open>Properties of the queries\<close>

lemma sorted_order_by_name:
  "sorted (map name (order_by Col_name False ps))"
  "sorted (rev (map name (order_by Col_name True ps)))"
  by (simp_all add: order_by_def Let_def rev_map[symmetric])

lemma mset_order_by: "mset (order_by col desc ps) = mset ps"
  by (cases col) (simp_all add: order_by_def Let_def)

text \<open>
  Claim C7 (as amended). When the sort parameter names no attribute of the Product class,
  the listing holds exactly the products that pass the filters, ordered by name:
  descending when the order parameter is 'desc', ascending for every other value.
\<close>

theorem unknown_sort_field_uses_name:
  assumes "Product_column sort_by = None" and "\<not> other_attr sort_by"
  shows "\<exists>ps. products other_attr d search category sort_by order = Some ps
           \<and> mset ps = mset (filter_products d search category)
           \<and> (if order = ''desc'' then sorted (rev (map name ps)) else sorted (map name ps))"
proof (cases "order = ''desc''")
  case True
  with assms show ?thesis
    by (simp add: products_def Let_def sorted_order_by_name(2) mset_order_by)
next
  case False
  with assms show ?thesis
    by (simp add: products_def Let_def sorted_order_by_name(1) mset_order_by)
qed

lemma names_compare: "''Gadget'' \<le> ''Widget''" "\<not> ''Widget'' \<le> ''Gadget''"
  by simp_all

lemma bogus_listing:
  "products no_other_attr two_product_db [] None ''bogus'' ''asc'' = Some [gadget, widget]"
  "products no_other_attr two_product_db [] None ''bogus'' ''desc'' = Some [widget, gadget]"
  by (simp_all add: products_def Product_column_def no_other_attr_def filter_products_def
      two_product_table order_by_def widget_def gadget_def)

text \<open>Sort field 'bogus', order 'asc', on the products Widget and Gadget.\<close>

theorem unknown_sort_field_uses_name_witness:
  "Product_column ''bogus'' = None \<and> \<not> no_other_attr ''bogus''
   \<and> products no_other_attr two_product_db [] None ''bogus'' ''asc'' = Some [gadget, widget]
   \<and> sorted (map name [gadget, widget])"
proof -
  have h1: "Product_column ''bogus'' = None" by (simp add: Product_column_def)
  have h2: "\<not> no_other_attr ''bogus''" by (simp add: no_other_attr_def)
  from unknown_sort_field_uses_name[where other_attr = no_other_attr and sort_by = "''bogus''"
      and d = two_product_db and search = "[]" and category = None and order = "''asc''", OF h1 h2]
    h1 h2
  show ?thesis by (auto simp: bogus_listing(1))
qed

text \<open>
  Claim C7 as stated has the listing ascending for every order. With sort field 'bogus'
  and order 'desc' the listing is Widget, Gadget: descending by name.
\<close>

theorem unknown_sort_field_descending_counterexample:
  "Product_column ''bogus'' = None \<and> \<not> no_other_attr ''bogus''
   \<and> products no_other_attr two_product_db [] None ''bogus'' ''desc'' = Some [widget, gadget]
   \<and> map name [widget, gadget] = [''Widget'', ''Gadget'']
   \<and> \<not> sorted (map name [widget, gadget])"
  by (simp add: bogus_listing(2) Product_column_def no_other_attr_def widget_def gadget_def)

lemma dashboard_stats_lengths:
  "length (fst (dashboard_stats now d)) = 30
   \<and> length (fst (snd (dashboard_stats now d))) = 30
   \<and> length (snd (snd (dashboard_stats now d))) = 30"
  by (simp add: dashboard_stats_def Let_def)

lemma dashboard_stats_labels:
  "fst (dashboard_stats now d) = map (\<lambda>i. fst now - 30 + int i) [0..<30]"
  by (simp add: dashboard_stats_def Let_def plus_days_def date_of_def)

lemma group_totals_single:
  "start \<le> t_created_at tr \<Longrightarrow>
   group_totals (t_type tr) start [tr] = [(date_of (t_created_at tr), t_quantity tr)]"
  by (simp add: group_totals_def Let_def)

lemma window_start_le: "plus_days (dy, tm) (- 30) \<le> (dy, tm')"
  by (simp add: plus_days_def less_eq_prod_def)

text \<open>
  Claim C4. The three sequences have length 30, and a day without rows reports 0 (the
  lemmas above and below). The claim has a purchase of 5 created today as the last element
  of the purchase totals. The days listed are the 30 days from \<open>now - 30\<close> to
  \<open>now - 1\<close>: today is not among them. Whenever the only transaction is a purchase of 5
  created on the day of the call, at any time of that day, every purchase total is 0, the
  last one included.
\<close>

theorem dashboard_stats_misses_today:
  "fst (snd (dashboard_stats (dy, tm) (d\<lparr>transaction_table := [purchase_of_5 (dy, tm')]\<rparr>)))
     = replicate 30 0
   \<and> last (fst (snd (dashboard_stats (dy, tm) (d\<lparr>transaction_table := [purchase_of_5 (dy, tm')]\<rparr>)))) = 0"
proof -
  let ?tr = "purchase_of_5 (dy, tm')"
  have g: "group_totals ''purchase'' (plus_days (dy, tm) (- 30)) [?tr] = [(dy, 5)]"
    using group_totals_single[of "plus_days (dy, tm) (- 30)" ?tr] window_start_le[of dy tm tm']
    by (simp add: purchase_of_5_def date_of_def)
  have "fst (snd (dashboard_stats (dy, tm) (d\<lparr>transaction_table := [?tr]\<rparr>)))
        = map (\<lambda>i. 0) [0..<30]"
    by (simp add: dashboard_stats_def Let_def g) (simp add: plus_days_def date_of_def)
  then have r: "fst (snd (dashboard_stats (dy, tm) (d\<lparr>transaction_table := [?tr]\<rparr>))) = replicate 30 0"
    by (simp add: map_replicate_const)
  show ?thesis unfolding r by simp
qed

lemma dashboard_stats_shows_yesterday:
  "last (fst (snd (dashboard_stats (dy, tm) (d\<lparr>transaction_table := [purchase_of_5 (dy - 1, tm)]\<rparr>)))) = 5"
proof -
  let ?tr = "purchase_of_5 (dy - 1, tm)"
  have "plus_days (dy, tm) (- 30) \<le> (dy - 1, tm)"
    by (simp add: plus_days_def less_eq_prod_def)
  then have g: "group_totals ''purchase'' (plus_days (dy, tm) (- 30)) [?tr] = [(dy - 1, 5)]"
    using group_totals_single[of "plus_days (dy, tm) (- 30)" ?tr]
    by (simp add: purchase_of_5_def date_of_def)
  have "[0..<30] = [0..<29] @ [29::nat]" by (simp add: upt_rec)
  then show ?thesis
    using g by (simp add: dashboard_stats_def Let_def plus_days_def date_of_def)
qed

lemma group_totals_no_rows:
  "\<forall>t\<in>set ts. t_type t = ty \<and> start \<le> t_created_at t \<longrightarrow> date_of (t_created_at t) \<noteq> dy \<Longrightarrow>
   map_of (group_totals ty start ts) dy = None"
  by (auto simp: group_totals_def Let_def map_of_eq_None_iff image_iff)

lemma dashboard_stats_zero_without_rows:
  assumes "i < 30"
    and "\<forall>t\<in>set (transaction_table d). date_of (t_created_at t) \<noteq> fst (dashboard_stats now d) ! i"
  shows "fst (snd (dashboard_stats now d)) ! i = 0 \<and> snd (snd (dashboard_stats now d)) ! i = 0"
proof -
  have l: "fst (dashboard_stats now d) ! i = fst now - 30 + int i"
    using assms(1) by (simp add: dashboard_stats_labels)
  have "map_of (group_totals ty (plus_days now (- 30)) (transaction_table d)) (fst now - 30 + int i) = None" for ty
    using assms(2) l by (intro group_totals_no_rows) auto
  then show ?thesis
    using assms(1) by (simp add: dashboard_stats_def Let_def plus_days_def date_of_def)
qed

section \<open>Properties of import and export\<close>

lemma digit_char_props:
  "n < 10 \<Longrightarrow> is_digit (digit_char n)"
  "n < 10 \<Longrightarrow> digit_val (digit_char n) = n"
  "n < 10 \<Longrightarrow> \<not> is_space (digit_char n)"
  by (simp_all add: is_digit_def digit_val_def digit_char_def is_space_def less_eq_char_def)

lemma digits_not_empty: "digits n \<noteq> []"
  by (subst digits.simps) simp

lemma digits_all_digit: "c \<in> set (digits n) \<Longrightarrow> is_digit c"
proof (induction n rule: digits.induct)
  case (1 n)
  then show ?case
    by (subst (asm) (2) digits.simps) (auto simp: digit_char_props split: if_splits)
qed

lemma parse_digits_all_digit:
  "ds \<noteq> [] \<Longrightarrow> \<forall>c\<in>set ds. is_digit c \<Longrightarrow>
   parse_digits b acc ds = Some (foldl (\<lambda>a c. 10 * a + digit_val c) acc ds)"
proof (induction ds arbitrary: b acc)
  case Nil
  then show ?case by simp
next
  case (Cons c ds)
  show ?case
  proof (cases ds)
    case Nil
    with Cons.prems show ?thesis by simp
  next
    case (Cons a as)
    with Cons.prems Cons.IH[of True "10 * acc + digit_val c"] show ?thesis by simp
  qed
qed

lemma foldl_digits: "foldl (\<lambda>a c. 10 * a + digit_val c) 0 (digits n) = n"
proof (induction n rule: digits.induct)
  case (1 n)
  show ?case
  proof (cases "n < 10")
    case True
    then show ?thesis by (subst digits.simps) (simp add: digit_char_props)
  next
    case False
    with 1 show ?thesis by (subst digits.simps) (simp add: digit_char_props)
  qed
qed

lemma parse_digits_digits: "parse_digits b 0 (digits n) = Some n"
  using parse_digits_all_digit[OF digits_not_empty, of n b 0] digits_all_digit foldl_digits
  by simp

lemma strip_id:
  assumes "s \<noteq> []" and "\<not> is_space (hd s)" and "\<not> is_space (last s)"
  shows "strip s = s"
proof -
  have "dropWhile is_space s = s" using assms(1,2) by (cases s) auto
  moreover have "dropWhile is_space (rev s) = rev s"
    using assms(1,3) by (cases "rev s") (auto simp: last_rev[symmetric] hd_rev)
  ultimately show ?thesis by (simp add: strip_def)
qed

lemma digit_not_space: "is_digit c \<Longrightarrow> \<not> is_space c"
  by (auto simp: is_digit_def is_space_def less_eq_char_def)

lemma last_digits_digit: "is_digit (last (digits n))"
  using digits_all_digit[of "last (digits n)" n] digits_not_empty by simp

lemma hd_digits_digit: "is_digit (hd (digits n))"
  using digits_all_digit[of "hd (digits n)" n] digits_not_empty by simp

lemma hd_digits_not_sign: "hd (digits n) \<noteq> CHR ''-''" "hd (digits n) \<noteq> CHR ''+''"
  using hd_digits_digit[of n] by (auto simp: is_digit_def less_eq_char_def)

lemma str_of_int_not_empty: "str_of_int i \<noteq> []"
  by (simp add: str_of_int_def digits_not_empty)

lemma int_space_is_space: "is_int_space c \<Longrightarrow> is_space c"
  by (auto simp: is_int_space_def is_space_def)

lemma int_strip_id:
  assumes "s \<noteq> []" and "\<not> is_space (hd s)" and "\<not> is_space (last s)"
  shows "int_strip s = s"
proof -
  have "dropWhile is_int_space s = s"
    using assms(1,2) int_space_is_space by (cases s) auto
  moreover have "dropWhile is_int_space (rev s) = rev s"
    using assms(1,3) int_space_is_space by (cases "rev s") (auto simp: last_rev[symmetric] hd_rev)
  ultimately show ?thesis by (simp add: int_strip_def)
qed

lemma strip_str_of_int: "int_strip (str_of_int i) = str_of_int i"
proof (rule int_strip_id)
  show "str_of_int i \<noteq> []" by (rule str_of_int_not_empty)
  show "\<not> is_space (hd (str_of_int i))"
  proof (cases "i < 0")
    case True
    then show ?thesis by (simp add: str_of_int_def is_space_def)
  next
    case False
    then show ?thesis using digit_not_space[OF hd_digits_digit[of "nat i"]] by (simp add: str_of_int_def)
  qed
  show "\<not> is_space (last (str_of_int i))"
    using last_digits_digit by (auto simp: str_of_int_def digit_not_space digits_not_empty)
qed

lemma int_of_str_of_int: "int_of_str (str_of_int i) = Some i"
proof (cases "i < 0")
  case True
  then show ?thesis
    by (simp add: int_of_str_def strip_str_of_int) (simp add: str_of_int_def parse_digits_digits)
next
  case False
  obtain c cs where d: "digits (nat i) = c # cs" using digits_not_empty[of "nat i"] by (cases "digits (nat i)") auto
  have "c \<noteq> CHR ''-''" "c \<noteq> CHR ''+''" using hd_digits_not_sign[of "nat i"] d by auto
  moreover have "parse_digits False 0 (c # cs) = Some (nat i)"
    using parse_digits_digits[of False "nat i"] d by simp
  ultimately show ?thesis
    using False d by (simp add: int_of_str_def strip_str_of_int) (simp add: str_of_int_def)
qed


lemma exported_row_fields:
  "get2 (dict_row export_header (export_row lib d p)) ''SKU'' ''sku'' = Some (PyStr (sku p))"
  "get2 (dict_row export_header (export_row lib d p)) ''Name'' ''name'' = Some (PyStr (name p))"
  "get2 (dict_row export_header (export_row lib d p)) ''Purchase Price'' ''purchase_price''
     = Some (PyStr (str_of_float lib (purchase_price p)))"
  "get2 (dict_row export_header (export_row lib d p)) ''Selling Price'' ''selling_price''
     = Some (PyStr (str_of_float lib (selling_price p)))"
  "get2 (dict_row export_header (export_row lib d p)) ''Quantity'' ''quantity''
     = Some (PyStr (str_of_int (quantity p)))"
  "get2 (dict_row export_header (export_row lib d p)) ''Reorder Level'' ''reorder_level''
     = Some (PyStr (str_of_int (reorder_level p)))"
  by (simp_all add: get2_def dict_row_def export_header_def export_row_def)

lemma exported_row_text_fields:
  "\<exists>s. get2 (dict_row export_header (export_row lib d p)) ''Category'' ''category'' = Some (PyStr s)"
  "\<exists>s. get2 (dict_row export_header (export_row lib d p)) ''Supplier'' ''supplier'' = Some (PyStr s)"
  by (simp_all add: get2_def dict_row_def export_header_def export_row_def)

lemma upsert_category_products:
  "product_table (snd (upsert_category n d)) = product_table d"
  "next_product_id (snd (upsert_category n d)) = next_product_id d"
  by (simp_all add: upsert_category_def split: option.splits)

lemma upsert_supplier_products:
  "product_table (snd (upsert_supplier n d)) = product_table d"
  "next_product_id (snd (upsert_supplier n d)) = next_product_id d"
  by (simp_all add: upsert_supplier_def split: option.splits)


lemma import_exported_row:
  fixes lib :: "('f::zero) pylib"
  assumes rt: "\<forall>x. float_of_str lib (str_of_float lib x) = Some x"
    and ne: "\<forall>x. str_of_float lib x \<noteq> []"
    and sku: "sku p \<noteq> []" "strip (sku p) = sku p"
    and nm: "strip (name p) \<noteq> []"
    and new: "sku p \<notin> set (map sku (product_table (session st)))"
  shows "map essentials (product_table (session (import_row lib now st
              (dict_row export_header (export_row lib d p)))))
           = map essentials (product_table (session st)) @ [essentials p]
       \<and> imported (import_row lib now st (dict_row export_header (export_row lib d p)))
           = imported st + 1
       \<and> skipped (import_row lib now st (dict_row export_header (export_row lib d p))) = skipped st
       \<and> errors (import_row lib now st (dict_row export_header (export_row lib d p))) = errors st"
proof -
  let ?row = "dict_row export_header (export_row lib d p)"
  obtain cn where cn: "get2 ?row ''Category'' ''category'' = Some (PyStr cn)"
    using exported_row_text_fields(1) by blast
  obtain sn where sn: "get2 ?row ''Supplier'' ''supplier'' = Some (PyStr sn)"
    using exported_row_text_fields(2) by blast
  obtain c d1 where u1: "upsert_category (strip cn) (session st) = (c, d1)"
    by (cases "upsert_category (strip cn) (session st)")
  obtain s d2 where u2: "upsert_supplier (strip sn) d1 = (s, d2)"
    by (cases "upsert_supplier (strip sn) d1")
  have pt: "product_table d2 = product_table (session st)"
    using upsert_category_products(1)[of "strip cn" "session st"]
      upsert_supplier_products(1)[of "strip sn" d1] u1 u2 by simp
  have nf: "find (\<lambda>q. sku q = sku p) (product_table (session st)) = None"
  proof -
    have "\<forall>q\<in>set (product_table (session st)). sku q \<noteq> sku p"
      using new by (metis image_eqI set_map)
    then show ?thesis by (simp add: find_None_iff)
  qed
  have fl: "float_field lib (Some (PyStr (str_of_float lib x))) = Inr x" for x
    using rt ne by (simp add: float_field_def)
  have il: "int_field (Some (PyStr (str_of_int n))) k = Inr n" for n k
    by (simp add: int_field_def str_of_int_not_empty int_of_str_of_int)
  show ?thesis
    by (simp add: import_row_def exported_row_fields cn sn strip_field_def sku nm nf u1 u2
        fl il pt essentials_def)
qed

lemma import_exported_rows:
  fixes lib :: "('f::zero) pylib"
  assumes rt: "\<forall>x. float_of_str lib (str_of_float lib x) = Some x"
    and ne: "\<forall>x. str_of_float lib x \<noteq> []"
  shows "distinct (map sku ps) \<Longrightarrow>
     \<forall>p\<in>set ps. sku p \<noteq> [] \<and> strip (sku p) = sku p \<and> strip (name p) \<noteq> [] \<Longrightarrow>
     set (map sku ps) \<inter> set (map sku (product_table (session st))) = {} \<Longrightarrow>
     map essentials (product_table (session (foldl (import_row lib now) st
              (map (\<lambda>p. dict_row export_header (export_row lib d p)) ps))))
           = map essentials (product_table (session st)) @ map essentials ps
     \<and> imported (foldl (import_row lib now) st
              (map (\<lambda>p. dict_row export_header (export_row lib d p)) ps)) = imported st + length ps
     \<and> skipped (foldl (import_row lib now) st
              (map (\<lambda>p. dict_row export_header (export_row lib d p)) ps)) = skipped st
     \<and> errors (foldl (import_row lib now) st
              (map (\<lambda>p. dict_row export_header (export_row lib d p)) ps)) = errors st"
proof (induction ps arbitrary: st)
  case Nil
  then show ?case by simp
next
  case (Cons p ps)
  let ?st1 = "import_row lib now st (dict_row export_header (export_row lib d p))"
  have new: "sku p \<notin> set (map sku (product_table (session st)))"
    using Cons.prems(3) by auto
  have ok: "sku p \<noteq> []" "strip (sku p) = sku p" "strip (name p) \<noteq> []"
    using Cons.prems(2) by auto
  note step = import_exported_row[OF rt ne ok new, of now d]
  have skus1: "map sku (product_table (session ?st1)) = map sku (product_table (session st)) @ [sku p]"
  proof -
    have "map fst (map essentials (product_table (session ?st1)))
          = map fst (map essentials (product_table (session st)) @ [essentials p])"
      using step by simp
    then show ?thesis by (simp add: essentials_def comp_def)
  qed
  have disj: "set (map sku ps) \<inter> set (map sku (product_table (session ?st1))) = {}"
    using Cons.prems(1,3) by (auto simp: skus1)
  have d': "distinct (map sku ps)" using Cons.prems(1) by simp
  have ok': "\<forall>p\<in>set ps. sku p \<noteq> [] \<and> strip (sku p) = sku p \<and> strip (name p) \<noteq> []"
    using Cons.prems(2) by simp
  from Cons.IH[OF d' ok' disj] step show ?case by simp
qed

lemma DictReader_export:
  "DictReader (export_products lib d)
     = map (\<lambda>p. dict_row export_header (export_row lib d p)) (sort_key name (product_table d))"
  by (simp add: DictReader_def export_products_def export_row_def filter_map comp_def)


lemma endswith_not_empty: "endswith fname ''.csv'' \<Longrightarrow> fname \<noteq> []"
  by (auto simp: endswith_def)

text \<open>
  Claim C9 (as amended). Let every SKU of the catalog be non-empty, free of leading and
  trailing whitespace and different from the others, and no product name be blank; let
  \<^verbatim>\<open>float(str(x))\<close> give back \<open>x\<close>. Then importing the export of the catalog into a
  catalog without products, categories and suppliers imports every row, skips none and
  yields the same SKUs, each with the same quantity, purchase price and selling price.
\<close>

theorem export_import_round_trip:
  fixes lib :: "('f::zero) pylib"
  assumes "\<forall>x. float_of_str lib (str_of_float lib x) = Some x"
    and "\<forall>x. str_of_float lib x \<noteq> []"
    and "distinct (map sku (product_table d))"
    and "\<forall>p\<in>set (product_table d). sku p \<noteq> [] \<and> strip (sku p) = sku p \<and> strip (name p) \<noteq> []"
    and "product_table e = []" and "category_table e = []" and "supplier_table e = []"
    and "is_admin cu" and "endswith fname ''.csv''"
  shows "\<exists>st. import_products lib cu now e POST
                 (Some \<lparr>filename = fname, content = export_products lib d\<rparr>) = (Success, st)
           \<and> mset (map essentials (product_table (session st)))
               = mset (map essentials (product_table d))
           \<and> set (map sku (product_table (session st))) = set (map sku (product_table d))
           \<and> imported st = length (product_table d) \<and> skipped st = 0 \<and> errors st = []"
proof -
  let ?ps = "sort_key name (product_table d)"
  let ?start = "\<lparr>session = e, imported = 0, skipped = 0, errors = []\<rparr>"
  let ?st = "foldl (import_row lib now) ?start
               (map (\<lambda>p. dict_row export_header (export_row lib d p)) ?ps)"
  have run: "import_products lib cu now e POST
               (Some \<lparr>filename = fname, content = export_products lib d\<rparr>) = (Success, ?st)"
    using assms(8,9) endswith_not_empty[OF assms(9)]
    by (simp add: import_products_def DictReader_export)
  have m: "mset ?ps = mset (product_table d)" by simp
  have dist: "distinct (map sku ?ps)"
  proof -
    have "mset (map sku ?ps) = mset (map sku (product_table d))" by simp
    then show ?thesis using assms(3) by (metis mset_eq_imp_distinct_iff)
  qed
  have ok: "\<forall>p\<in>set ?ps. sku p \<noteq> [] \<and> strip (sku p) = sku p \<and> strip (name p) \<noteq> []"
    using assms(4) by simp
  have disj: "set (map sku ?ps) \<inter> set (map sku (product_table (session ?start))) = {}"
    using assms(5) by simp
  from import_exported_rows[OF assms(1,2) dist ok disj, of now d]
  have r: "map essentials (product_table (session ?st)) = map essentials ?ps"
    "imported ?st = length (product_table d)" "skipped ?st = 0" "errors ?st = []"
    using assms(5) by simp_all
  have e1: "mset (map essentials (product_table (session ?st)))
              = mset (map essentials (product_table d))"
    unfolding r(1) by simp
  have "map sku (product_table (session ?st)) = map sku ?ps"
  proof -
    have "map fst (map essentials (product_table (session ?st))) = map fst (map essentials ?ps)"
      using r(1) by simp
    then show ?thesis by (simp add: essentials_def comp_def)
  qed
  then have e2: "set (map sku (product_table (session ?st))) = set (map sku (product_table d))"
    by simp
  show ?thesis using run e1 e2 r(2,3,4) by blast
qed

lemma strip_examples:
  "strip ''W1'' = ''W1''" "strip ''G1'' = ''G1''" "strip ''X1'' = ''X1''"
  "strip ''Widget'' = ''Widget''" "strip ''Gadget'' = ''Gadget''" "strip ''Tools'' = ''Tools''"
  "strip ''W1 '' = ''W1''" "strip '' '' = []" "strip [] = []"
  by (simp_all add: strip_def is_space_def)

text \<open>The round trip of the catalog with the products Widget (W1) and Gadget (G1).\<close>

theorem export_import_round_trip_witness:
  "(\<forall>x. float_of_str int_lib (str_of_float int_lib x) = Some x)
   \<and> (\<forall>x. str_of_float int_lib x \<noteq> [])
   \<and> map sku (product_table two_product_db) = [''W1'', ''G1'']
   \<and> map name (product_table two_product_db) = [''Widget'', ''Gadget'']
   \<and> is_admin admin_user \<and> endswith ''products_export.csv'' ''.csv''
   \<and> fst (import_products int_lib admin_user (200, 0) empty_db POST (Some (export_of two_product_db)))
       = Success
   \<and> mset (map essentials (product_table (session (snd
         (import_products int_lib admin_user (200, 0) empty_db POST (Some (export_of two_product_db)))))))
       = {#(''W1'', 5, 2, 3), (''G1'', 0, 7, 9)#}"
proof -
  have h1: "\<forall>x. float_of_str int_lib (str_of_float int_lib x) = Some x"
    by (simp add: int_lib_def int_of_str_of_int)
  have h2: "\<forall>x. str_of_float int_lib x \<noteq> []"
    by (simp add: int_lib_def str_of_int_not_empty)
  have h3: "distinct (map sku (product_table two_product_db))"
    by (simp add: two_product_table widget_def gadget_def)
  have h4: "\<forall>p\<in>set (product_table two_product_db).
              sku p \<noteq> [] \<and> strip (sku p) = sku p \<and> strip (name p) \<noteq> []"
    by (simp add: two_product_table widget_def gadget_def strip_examples)
  have h5: "product_table empty_db = []" "category_table empty_db = []" "supplier_table empty_db = []"
    by (simp_all add: empty_db_def)
  have h8: "is_admin admin_user" by (simp add: is_admin_def admin_user_def)
  have h9: "endswith ''products_export.csv'' ''.csv''" by (simp add: endswith_def)
  have e: "mset (map essentials (product_table two_product_db)) = {#(''W1'', 5, 2, 3), (''G1'', 0, 7, 9)#}"
    by (simp add: two_product_table widget_def gadget_def essentials_def)
  from export_import_round_trip[OF h1 h2 h3 h4 h5 h8 h9, of "(200, 0)"] h1 h2 h8 h9 e
  show ?thesis
    by (auto simp: export_of_def two_product_table widget_def gadget_def)
qed

lemma spaced_export:
  "export_products int_lib spaced_db
     = [export_header, [''1'', ''Widget'', ''W1 '', [], [], [], ''2'', ''3'', ''5'', ''10'', ''100'']]"
  by code_simp

text \<open>
  Claim C9 as stated covers every catalog. \<^verbatim>\<open>add_product\<close> stores the SKU as typed; the
  import strips it. A catalog whose one product has the SKU 'W1 ' (a trailing space)
  comes back with the SKU 'W1'.
\<close>

theorem round_trip_strips_sku_counterexample:
  "map sku (product_table spaced_db) = [''W1 '']
   \<and> map sku (product_table (session (snd
        (import_products int_lib admin_user (200, 0) empty_db POST (Some (export_of spaced_db))))))
       = [''W1'']"
  by code_simp


lemma find_Some_member: "find P xs = Some x \<Longrightarrow> P x \<and> x \<in> set xs"
  by (induction xs) (auto split: if_splits)

lemma import_row_blank_sku:
  "strip_field (get2 row ''SKU'' ''sku'') = Inr [] \<Longrightarrow>
   import_row lib now st row = st\<lparr>skipped := skipped st + 1\<rparr>"
  by (simp add: import_row_def)

lemma import_row_duplicate:
  assumes "strip_field (get2 row ''SKU'' ''sku'') = Inr s" and "s \<noteq> []"
    and "s \<in> set (map sku (product_table (session st)))"
  shows "import_row lib now st row
           = st\<lparr>skipped := skipped st + 1, errors := errors st @ [SkuExists s]\<rparr>"
proof -
  have "find (\<lambda>p. sku p = s) (product_table (session st)) \<noteq> None"
    using assms(3) by (auto simp: find_None_iff)
  then show ?thesis using assms(1,2) by (simp add: import_row_def)
qed

lemma import_row_blank_name:
  assumes "strip_field (get2 row ''SKU'' ''sku'') = Inr s" and "s \<noteq> []"
    and "s \<notin> set (map sku (product_table (session st)))"
    and "strip_field (get2 row ''Name'' ''name'') = Inr []"
  shows "import_row lib now st row = st\<lparr>skipped := skipped st + 1\<rparr>"
proof -
  have "\<forall>q\<in>set (product_table (session st)). sku q \<noteq> s"
    using assms(3) by (metis image_eqI set_map)
  then have "find (\<lambda>p. sku p = s) (product_table (session st)) = None"
    by (simp add: find_None_iff)
  then show ?thesis using assms(1,2,4) by (simp add: import_row_def)
qed

lemma widget_row_fields:
  "get2 (dict_row [''SKU'', ''Name'', ''Category''] [''X1'', ''Widget'', ''Tools'']) ''SKU'' ''sku''
     = Some (PyStr ''X1'')"
  "get2 (dict_row [''SKU'', ''Name'', ''Category''] [''X1'', ''Widget'', ''Tools'']) ''Name'' ''name''
     = Some (PyStr ''Widget'')"
  "get2 (dict_row [''SKU'', ''Name'', ''Category''] [''X1'', ''Widget'', ''Tools'']) ''Category'' ''category''
     = Some (PyStr ''Tools'')"
  "get2 (dict_row [''SKU'', ''Name'', ''Category''] [''X1'', ''Widget'', ''Tools'']) ''Supplier'' ''supplier''
     = None"
  "get2 (dict_row [''SKU'', ''Name'', ''Category''] [''X1'', ''Widget'', ''Tools'']) ''Description'' ''description''
     = None"
  "get2 (dict_row [''SKU'', ''Name'', ''Category''] [''X1'', ''Widget'', ''Tools'']) ''Purchase Price'' ''purchase_price''
     = None"
  "get2 (dict_row [''SKU'', ''Name'', ''Category''] [''X1'', ''Widget'', ''Tools'']) ''Selling Price'' ''selling_price''
     = None"
  "get2 (dict_row [''SKU'', ''Name'', ''Category''] [''X1'', ''Widget'', ''Tools'']) ''Quantity'' ''quantity''
     = None"
  "get2 (dict_row [''SKU'', ''Name'', ''Category''] [''X1'', ''Widget'', ''Tools'']) ''Reorder Level'' ''reorder_level''
     = None"
  by (simp_all add: get2_def dict_row_def)

lemma import_row_new_widget:
  fixes lib :: "('f::zero) pylib"
  assumes "''X1'' \<notin> set (map sku (product_table (session st)))"
  shows "import_row lib now st (dict_row [''SKU'', ''Name'', ''Category''] [''X1'', ''Widget'', ''Tools''])
           = st\<lparr>session := (session st)\<lparr>product_table := product_table (session st) @ [new_widget (session st) now],
                                          category_table := with_tools (session st),
                                          next_product_id := next_product_id (session st) + 1,
                                          next_category_id :=
                                            (if ''Tools'' \<in> set (map c_name (category_table (session st)))
                                             then next_category_id (session st)
                                             else next_category_id (session st) + 1)\<rparr>,
                 imported := imported st + 1\<rparr>"
proof -
  have "\<forall>q\<in>set (product_table (session st)). sku q \<noteq> ''X1''"
    using assms by (metis image_eqI set_map)
  then have nf: "find (\<lambda>p. sku p = ''X1'') (product_table (session st)) = None"
    by (simp add: find_None_iff)
  show ?thesis
  proof (cases "find (\<lambda>c. c_name c = ''Tools'') (category_table (session st))")
    case None
    then have "''Tools'' \<notin> set (map c_name (category_table (session st)))"
      by (auto simp: find_None_iff)
    with None nf show ?thesis
      by (simp add: import_row_def widget_row_fields strip_field_def strip_examples
          upsert_category_def upsert_supplier_def float_field_def int_field_def
          new_widget_def tools_category_def with_tools_def)
  next
    case (Some c)
    then have "''Tools'' \<in> set (map c_name (category_table (session st)))"
      using find_Some_member[OF Some] by force
    with Some nf show ?thesis
      by (simp add: import_row_def widget_row_fields strip_field_def strip_examples
          upsert_category_def upsert_supplier_def float_field_def int_field_def
          new_widget_def tools_category_def with_tools_def)
  qed
qed


lemma duplicate_row_sku:
  "get2 (dict_row [''SKU'', ''Name'', ''Category''] (dup # rest)) ''SKU'' ''sku'' = Some (PyStr dup)"
proof (cases rest)
  case Nil
  then show ?thesis by (simp add: get2_def dict_row_def)
next
  case (Cons a as)
  then show ?thesis by (cases as) (simp_all add: get2_def dict_row_def)
qed

text \<open>
  Claim C8 (as amended). A file with the header SKU, Name, Category and two rows, in
  either order, one the new row ("X1", "Widget", "Tools") and one whose SKU is in the
  catalog, is imported with imported = 1 and skipped = 1; the error messages are the one
  for the duplicate; the product table gains exactly the product X1; the category "Tools"
  is created if no category of that name existed, else the table of categories is as
  before. A row with a blank SKU, and a row with a blank Name whose SKU is not in the
  catalog, add one to skipped and change nothing else: no message, no record.
\<close>

theorem import_new_and_duplicate_rows:
  fixes lib :: "('f::zero) pylib"
  assumes "is_admin cu" and "endswith fname ''.csv''"
    and "''X1'' \<notin> set (map sku (product_table d))"
    and "strip dup \<noteq> []" and "strip dup \<in> set (map sku (product_table d))"
    and "rows = [[''X1'', ''Widget'', ''Tools''], dup # rest]
         \<or> rows = [dup # rest, [''X1'', ''Widget'', ''Tools'']]"
  shows "(\<exists>st. import_products lib cu now d POST
                  (Some \<lparr>filename = fname, content = [''SKU'', ''Name'', ''Category''] # rows\<rparr>)
                = (Success, st)
            \<and> imported st = 1 \<and> skipped st = 1 \<and> errors st = [SkuExists (strip dup)]
            \<and> product_table (session st) = product_table d @ [new_widget d now]
            \<and> category_table (session st) = with_tools d
            \<and> supplier_table (session st) = supplier_table d)
       \<and> (strip_field (get2 row ''SKU'' ''sku'') = Inr []
            \<longrightarrow> import_row lib now st0 row = st0\<lparr>skipped := skipped st0 + 1\<rparr>)
       \<and> (strip_field (get2 row ''SKU'' ''sku'') = Inr s \<and> s \<noteq> []
            \<and> s \<notin> set (map sku (product_table (session st0)))
            \<and> strip_field (get2 row ''Name'' ''name'') = Inr []
            \<longrightarrow> import_row lib now st0 row = st0\<lparr>skipped := skipped st0 + 1\<rparr>)"
proof (intro conjI impI)
  let ?start = "\<lparr>session = d, imported = 0, skipped = 0, errors = []\<rparr> :: 'f import_state"
  let ?new = "dict_row [''SKU'', ''Name'', ''Category''] [''X1'', ''Widget'', ''Tools'']"
  let ?dup = "dict_row [''SKU'', ''Name'', ''Category''] (dup # rest)"
  have sf: "strip_field (get2 ?dup ''SKU'' ''sku'') = Inr (strip dup)"
    by (simp add: duplicate_row_sku strip_field_def)
  have run: "import_products lib cu now d POST
               (Some \<lparr>filename = fname, content = [''SKU'', ''Name'', ''Category''] # rows\<rparr>)
             = (Success, foldl (import_row lib now) ?start
                           (map (dict_row [''SKU'', ''Name'', ''Category'']) rows))"
    using assms(1,2,6) endswith_not_empty[OF assms(2)]
    by (auto simp: import_products_def DictReader_def)
  have x1: "''X1'' \<notin> set (map sku (product_table (session ?start)))"
    using assms(3) by simp
  have dk: "strip dup \<in> set (map sku (product_table (session ?start)))"
    using assms(5) by simp
  from assms(6) show "\<exists>st. import_products lib cu now d POST
                  (Some \<lparr>filename = fname, content = [''SKU'', ''Name'', ''Category''] # rows\<rparr>)
                = (Success, st)
            \<and> imported st = 1 \<and> skipped st = 1 \<and> errors st = [SkuExists (strip dup)]
            \<and> product_table (session st) = product_table d @ [new_widget d now]
            \<and> category_table (session st) = with_tools d
            \<and> supplier_table (session st) = supplier_table d"
  proof
    assume r: "rows = [[''X1'', ''Widget'', ''Tools''], dup # rest]"
    let ?st1 = "import_row lib now ?start ?new"
    have s1: "?st1 = ?start\<lparr>session := d\<lparr>product_table := product_table d @ [new_widget d now],
                                          category_table := with_tools d,
                                          next_product_id := next_product_id d + 1,
                                          next_category_id :=
                                            (if ''Tools'' \<in> set (map c_name (category_table d))
                                             then next_category_id d
                                             else next_category_id d + 1)\<rparr>,
                 imported := imported ?start + 1\<rparr>"
      using import_row_new_widget[OF x1, of lib now] by simp
    have dk1: "strip dup \<in> set (map sku (product_table (session ?st1)))"
      using assms(5) unfolding s1 by simp
    have s2: "import_row lib now ?st1 ?dup
                = ?st1\<lparr>skipped := skipped ?st1 + 1, errors := errors ?st1 @ [SkuExists (strip dup)]\<rparr>"
      by (rule import_row_duplicate[OF sf assms(4) dk1])
    have "import_products lib cu now d POST
               (Some \<lparr>filename = fname, content = [''SKU'', ''Name'', ''Category''] # rows\<rparr>)
             = (Success, ?st1\<lparr>skipped := skipped ?st1 + 1,
                               errors := errors ?st1 @ [SkuExists (strip dup)]\<rparr>)"
      unfolding run by (simp add: r s2)
    then show ?thesis
      by (simp add: s1)
  next
    assume r: "rows = [dup # rest, [''X1'', ''Widget'', ''Tools'']]"
    let ?st1 = "?start\<lparr>skipped := skipped ?start + 1, errors := errors ?start @ [SkuExists (strip dup)]\<rparr>"
    have s1: "import_row lib now ?start ?dup = ?st1"
      by (rule import_row_duplicate[OF sf assms(4) dk])
    have x1': "''X1'' \<notin> set (map sku (product_table (session ?st1)))"
      using assms(3) by simp
    have "import_products lib cu now d POST
               (Some \<lparr>filename = fname, content = [''SKU'', ''Name'', ''Category''] # rows\<rparr>)
             = (Success, import_row lib now ?st1 ?new)"
      unfolding run by (simp add: r s1)
    then show ?thesis
      using import_row_new_widget[OF x1', of lib now] by simp
  qed
next
  assume "strip_field (get2 row ''SKU'' ''sku'') = Inr []"
  then show "import_row lib now st0 row = st0\<lparr>skipped := skipped st0 + 1\<rparr>"
    by (rule import_row_blank_sku)
next
  assume "strip_field (get2 row ''SKU'' ''sku'') = Inr s \<and> s \<noteq> []
            \<and> s \<notin> set (map sku (product_table (session st0)))
            \<and> strip_field (get2 row ''Name'' ''name'') = Inr []"
  then show "import_row lib now st0 row = st0\<lparr>skipped := skipped st0 + 1\<rparr>"
    using import_row_blank_name[of row s st0 lib now] by blast
qed


text \<open>
  The file with the rows (X1, Widget, Tools) and (W1, ...) imported into the catalog that
  holds W1 and no category; a row with a blank SKU and a row with a blank Name.
\<close>

theorem import_new_and_duplicate_rows_witness:
  "is_admin admin_user \<and> endswith ''new.csv'' ''.csv''
   \<and> ''X1'' \<notin> set (map sku (product_table stocked_db))
   \<and> strip ''W1'' = ''W1'' \<and> ''W1'' \<in> set (map sku (product_table stocked_db))
   \<and> fst (import_products int_lib admin_user (200, 0) stocked_db POST (Some tools_file)) = Success
   \<and> imported (snd (import_products int_lib admin_user (200, 0) stocked_db POST (Some tools_file))) = 1
   \<and> skipped (snd (import_products int_lib admin_user (200, 0) stocked_db POST (Some tools_file))) = 1
   \<and> errors (snd (import_products int_lib admin_user (200, 0) stocked_db POST (Some tools_file)))
       = [SkuExists ''W1'']
   \<and> map sku (product_table (session (snd
         (import_products int_lib admin_user (200, 0) stocked_db POST (Some tools_file)))))
       = [''W1'', ''X1'']
   \<and> map c_name (category_table (session (snd
         (import_products int_lib admin_user (200, 0) stocked_db POST (Some tools_file)))))
       = [''Tools'']
   \<and> strip_field (get2 blank_sku_row ''SKU'' ''sku'') = Inr []
   \<and> import_row int_lib (200, 0) start_state blank_sku_row = start_state\<lparr>skipped := 1\<rparr>
   \<and> strip_field (get2 blank_name_row ''Name'' ''name'') = Inr []
   \<and> import_row int_lib (200, 0) start_state blank_name_row = start_state\<lparr>skipped := 1\<rparr>"
proof -
  have pt: "product_table stocked_db = [widget]" by (simp add: demo_defs)
  have ct: "category_table stocked_db = []" by (simp add: demo_defs)
  have h1: "is_admin admin_user" by (simp add: is_admin_def admin_user_def)
  have h2: "endswith ''new.csv'' ''.csv''" by (simp add: endswith_def)
  have h3: "''X1'' \<notin> set (map sku (product_table stocked_db))" by (simp add: pt widget_def)
  have h4: "strip ''W1'' \<noteq> []" by (simp add: strip_examples)
  have h5: "strip ''W1'' \<in> set (map sku (product_table stocked_db))"
    by (simp add: strip_examples pt widget_def)
  have h6: "[[''X1'', ''Widget'', ''Tools''], [''W1'', ''Widget again'', ''Tools'']]
              = [[''X1'', ''Widget'', ''Tools''], ''W1'' # [''Widget again'', ''Tools'']]
            \<or> [[''X1'', ''Widget'', ''Tools''], [''W1'', ''Widget again'', ''Tools'']]
              = [''W1'' # [''Widget again'', ''Tools''], [''X1'', ''Widget'', ''Tools'']]"
    by simp
  have b1: "strip_field (get2 blank_sku_row ''SKU'' ''sku'') = Inr []"
    by (simp add: blank_sku_row_def get2_def dict_row_def strip_field_def strip_def is_space_def)
  have b2: "strip_field (get2 blank_name_row ''SKU'' ''sku'') = Inr ''Z9''"
           "strip_field (get2 blank_name_row ''Name'' ''name'') = Inr []"
    by (simp_all add: blank_name_row_def get2_def dict_row_def strip_field_def strip_def is_space_def)
  have b3: "''Z9'' \<notin> set (map sku (product_table (session start_state)))"
    by (simp add: start_state_def pt widget_def)
  have sk: "skipped start_state = 0" by (simp add: start_state_def)
  note main = import_new_and_duplicate_rows[OF h1 h2 h3 h4 h5 h6, of int_lib "(200, 0)"]
  from main[of blank_sku_row start_state "''Z9''"] b1
  have r1: "import_row int_lib (200, 0) start_state blank_sku_row = start_state\<lparr>skipped := 1\<rparr>"
    by (simp add: sk)
  from main[of blank_name_row start_state "''Z9''"] b2 b3
  have r2: "import_row int_lib (200, 0) start_state blank_name_row = start_state\<lparr>skipped := 1\<rparr>"
    by (simp add: sk)
  from main[of blank_sku_row start_state "''Z9''"]
  obtain st where st:
    "import_products int_lib admin_user (200, 0) stocked_db POST (Some tools_file) = (Success, st)"
    "imported st = 1" "skipped st = 1" "errors st = [SkuExists ''W1'']"
    "product_table (session st) = product_table stocked_db @ [new_widget stocked_db (200, 0)]"
    "category_table (session st) = with_tools stocked_db"
    by (auto simp: tools_file_def strip_examples)
  have c: "map c_name (with_tools stocked_db) = [''Tools'']" by (simp add: with_tools_def ct)
  show ?thesis
    using h1 h2 h3 h5 st c b1 b2(2) r1 r2
    by (simp add: strip_examples pt widget_def new_widget_def)
qed

text \<open>
  Claim C8 as stated has every row with a blank Name skipped without an error message. The
  SKU is looked up before the Name is read: a row with a blank Name whose SKU is in the
  catalog is skipped with the message for the duplicate.
\<close>

theorem blank_name_known_sku_counterexample:
  "strip_field (get2 blank_name_known_sku_row ''Name'' ''name'') = Inr []
   \<and> skipped (import_row int_lib (200, 0) start_state blank_name_known_sku_row) = 1
   \<and> errors (import_row int_lib (200, 0) start_state blank_name_known_sku_row) = [SkuExists ''W1'']"
  by code_simp

end
